theory Spec2Isabelle
  imports Main "HOL-Library.Word" "HOL-Library.Char_ord"
begin

unbundle bit_operations_syntax

section \<open>Data model\<close>

text \<open>
  Go strings and byte slices are both sequences of bytes; a HOL \<open>char\<close> is one byte.
  The conversion \<^verbatim>\<open>[]byte(body)\<close> of the source is therefore the identity.
\<close>

type_synonym bytes = "char list"

text \<open>\<^verbatim>\<open>type Page struct { Title string; Body []byte }\<close>\<close>

record Page =
  Title :: string
  Body :: bytes

text \<open>
  Go's \<^verbatim>\<open>error\<close> values that occur in the program: the one made by
  \<^verbatim>\<open>errors.New\<close> (also used for the errors of the template package) and the
  \<^verbatim>\<open>*fs.PathError\<close> of package os, with operation, path and cause.
  \<open>Error_text\<close> is the method \<^verbatim>\<open>Error()\<close>.
\<close>

datatype error = ErrorString string | PathError string string string

fun Error_text :: "error \<Rightarrow> string" where
  "Error_text (ErrorString s) = s"
| "Error_text (PathError opn path cause) = opn @ '' '' @ path @ '': '' @ cause"

section \<open>The operating system: files\<close>

text \<open>
  The working directory is a map from file names to files. A file has its bytes and its
  permission bits (\<^verbatim>\<open>fs.FileMode\<close>, an unsigned 32-bit integer). The process has a
  umask. What the environment may refuse (permission denied, disk full, an I/O error) is
  given by two oracles: \<open>read_fault\<close> names the files whose reading fails and with what
  error, \<open>write_fault\<close> the writes that fail: either opening the file fails, and the file
  is untouched, or writing fails after some bytes, and the file is left partially written.
  \<open>io_log\<close> is a ghost field: the calls made to the file system, in order.
\<close>

type_synonym FileMode = "32 word"

record os_file =
  content :: bytes
  mode :: FileMode

datatype write_failure = OpenFailed error | WriteFailed nat error

datatype io_event = EvReadFile string | EvWriteFile string bytes FileMode

record os_state =
  files :: "string \<rightharpoonup> os_file"
  umask :: FileMode
  read_fault :: "string \<Rightarrow> error option"
  write_fault :: "string \<Rightarrow> bytes \<Rightarrow> write_failure option"
  io_log :: "io_event list"

text \<open>
  Opening with \<^verbatim>\<open>O_WRONLY|O_CREATE|O_TRUNC\<close> and writing: a file that does not exist
  is created with the permissions \<open>perm\<close> less the bits of the umask; a file that exists is
  truncated and keeps the permissions it has.
\<close>

definition store_file :: "string \<Rightarrow> bytes \<Rightarrow> FileMode \<Rightarrow> os_state \<Rightarrow> os_state" where
  "store_file name data perm s =
     s\<lparr>files := (files s)(name \<mapsto>
          \<lparr>content = data,
           mode = (case files s name of
                     None \<Rightarrow> perm AND NOT (umask s)
                   | Some f \<Rightarrow> mode f)\<rparr>)\<rparr>"

text \<open>
  \<^verbatim>\<open>os.WriteFile(name, data, perm)\<close>: "writes data to the named file, creating it if
  necessary. If the file does not exist, WriteFile creates it with permissions perm (before
  umask); otherwise WriteFile truncates it before writing, without changing permissions.
  [...] a failure mid-operation can leave the file in a partially written state."
\<close>

definition os_WriteFile ::
  "string \<Rightarrow> bytes \<Rightarrow> FileMode \<Rightarrow> os_state \<Rightarrow> error option \<times> os_state" where
  "os_WriteFile name data perm s =
     (let s1 = s\<lparr>io_log := io_log s @ [EvWriteFile name data perm]\<rparr> in
      case write_fault s name data of
        Some (OpenFailed e) \<Rightarrow> (Some e, s1)
      | Some (WriteFailed n e) \<Rightarrow> (Some e, store_file name (take n data) perm s1)
      | None \<Rightarrow> (None, store_file name data perm s1))"

text \<open>
  \<^verbatim>\<open>os.ReadFile(name)\<close>: the bytes of the file, or an error; a file that does not exist
  gives the path error \<^verbatim>\<open>open <name>: no such file or directory\<close>.
\<close>

definition os_ReadFile :: "string \<Rightarrow> os_state \<Rightarrow> (error + bytes) \<times> os_state" where
  "os_ReadFile name s =
     (let s1 = s\<lparr>io_log := io_log s @ [EvReadFile name]\<rparr> in
      case read_fault s name of
        Some e \<Rightarrow> (Inl e, s1)
      | None \<Rightarrow>
          (case files s name of
             None \<Rightarrow> (Inl (PathError ''open'' name ''no such file or directory''), s1)
           | Some f \<Rightarrow> (Inr (content f), s1)))"

section \<open>Storage accessor: save and loadPage\<close>

text \<open>The permission argument of the source, octal 0600: read and write for the owner.\<close>

definition perm_0600 :: FileMode where
  "perm_0600 = 0x180"

text \<open>The permission bits of group and others, octal 0077.\<close>

definition perm_0077 :: FileMode where
  "perm_0077 = 0x3F"

text \<open>
  \<^verbatim>\<open>func (p *Page) save() error {
    filename := p.Title + ".txt"
    return os.WriteFile(filename, p.Body, 0600) }\<close>
\<close>

definition save :: "Page \<Rightarrow> os_state \<Rightarrow> error option \<times> os_state" where
  "save p s = (let filename = Title p @ ''.txt'' in os_WriteFile filename (Body p) perm_0600 s)"

text \<open>
  \<^verbatim>\<open>func loadPage(title string) (*Page, error) {
    filename := title + ".txt"
    body, err := os.ReadFile(filename)
    if err != nil { return nil, err }
    return &Page{Title: title, Body: body}, nil }\<close>
\<close>

definition loadPage :: "string \<Rightarrow> os_state \<Rightarrow> (error + Page) \<times> os_state" where
  "loadPage title s =
     (let filename = title @ ''.txt'' in
      case os_ReadFile filename s of
        (Inl err, s1) \<Rightarrow> (Inl err, s1)
      | (Inr body, s1) \<Rightarrow> (Inr \<lparr>Title = title, Body = body\<rparr>, s1))"

section \<open>The HTTP response\<close>

text \<open>
  The \<^verbatim>\<open>http.ResponseWriter\<close> a handler receives: the header map the handler may
  still change, whether the status line has gone out, the status code and the headers that
  went out with it, and the body written so far. Header names are in canonical form and a
  header has one value.
\<close>

record ResponseWriter =
  header :: "string \<rightharpoonup> string"
  wroteHeader :: bool
  status :: nat
  sent_header :: "string \<rightharpoonup> string"
  body :: bytes

text \<open>The writer of a new request: nothing set, nothing sent.\<close>

definition new_ResponseWriter :: ResponseWriter where
  "new_ResponseWriter =
     \<lparr>header = Map.empty, wroteHeader = False, status = 0,
      sent_header = Map.empty, body = []\<rparr>"

text \<open>
  \<^verbatim>\<open>w.WriteHeader(code)\<close> sends the status line and the headers as they are now. A
  second call is superfluous: the server logs it and changes nothing.
\<close>

definition WriteHeader :: "nat \<Rightarrow> ResponseWriter \<Rightarrow> ResponseWriter" where
  "WriteHeader code w =
     (if wroteHeader w then w
      else w\<lparr>wroteHeader := True, status := code, sent_header := header w\<rparr>)"

text \<open>
  \<^verbatim>\<open>w.Write(data)\<close>: "If WriteHeader has not yet been called, Write calls
  WriteHeader(http.StatusOK) before writing the data."
\<close>

definition Write :: "bytes \<Rightarrow> ResponseWriter \<Rightarrow> ResponseWriter" where
  "Write data w =
     (let w1 = (if wroteHeader w then w else WriteHeader 200 w)
      in w1\<lparr>body := body w1 @ data\<rparr>)"

text \<open>
  When the handler returns, the server finishes the request: a handler that wrote nothing
  has answered 200 with an empty body.
\<close>

definition finishRequest :: "ResponseWriter \<Rightarrow> ResponseWriter" where
  "finishRequest w = (if wroteHeader w then w else WriteHeader 200 w)"

text \<open>
  \<^verbatim>\<open>http.Error(w, error, code)\<close>: deletes Content-Length, sets Content-Type and
  X-Content-Type-Options, calls \<^verbatim>\<open>w.WriteHeader(code)\<close> and prints the error text and
  a newline to \<open>w\<close>.
\<close>

definition http_Error :: "string \<Rightarrow> nat \<Rightarrow> ResponseWriter \<Rightarrow> ResponseWriter" where
  "http_Error err code w =
     (let w1 = w\<lparr>header := ((header w)(''Content-Length'' := None))
                    (''Content-Type'' \<mapsto> ''text/plain; charset=utf-8'',
                     ''X-Content-Type-Options'' \<mapsto> ''nosniff'')\<rparr>;
          w2 = WriteHeader code w1
      in Write (err @ [CHR 0x0A]) w2)"

section \<open>The HTTP request\<close>

text \<open>
  Of \<^verbatim>\<open>*http.Request\<close>: the method, \<^verbatim>\<open>r.URL.Path\<close>, and the form data in its
  three places, each as the decoded list of fields in order: the query of the URL, a body of
  type application/x-www-form-urlencoded, and a body of type multipart/form-data.
\<close>

record Request =
  Method :: string
  URL_Path :: string
  URL_Query :: "(string \<times> string) list"
  UrlencodedBody :: "(string \<times> string) list"
  MultipartBody :: "(string \<times> string) list"

text \<open>
  \<^verbatim>\<open>r.FormValue(key)\<close> "returns the first value for the named component of the query.
  The precedence order: application/x-www-form-urlencoded form body (POST, PUT, PATCH only),
  query parameters (always), multipart/form-data form body (always). [...] If key is not
  present, FormValue returns the empty string." \<open>ParseForm\<close> is the field
  \<^verbatim>\<open>r.Form\<close> that the call fills.
\<close>

definition ParseForm :: "Request \<Rightarrow> (string \<times> string) list" where
  "ParseForm r =
     (if Method r = ''POST'' \<or> Method r = ''PUT'' \<or> Method r = ''PATCH''
      then UrlencodedBody r else [])
     @ URL_Query r @ MultipartBody r"

definition FormValue :: "Request \<Rightarrow> string \<Rightarrow> string" where
  "FormValue r key = (case map_of (ParseForm r) key of Some v \<Rightarrow> v | None \<Rightarrow> [])"

text \<open>\<^verbatim>\<open>http.NotFound(w, r)\<close> is \<^verbatim>\<open>Error(w, "404 page not found", StatusNotFound)\<close>.\<close>

definition http_NotFound :: "ResponseWriter \<Rightarrow> Request \<Rightarrow> ResponseWriter" where
  "http_NotFound w r = http_Error ''404 page not found'' 404 w"

text \<open>\<^verbatim>\<open>http.StatusText\<close>, for the codes of this program.\<close>

definition StatusText :: "nat \<Rightarrow> string" where
  "StatusText code =
     (if code = 200 then ''OK''
      else if code = 302 then ''Found''
      else if code = 404 then ''Not Found''
      else if code = 500 then ''Internal Server Error''
      else [])"

text \<open>The replacements of \<^verbatim>\<open>htmlEscape\<close> in net/http.\<close>

fun htmlEscape :: "string \<Rightarrow> string" where
  "htmlEscape [] = []"
| "htmlEscape (c # cs) =
     (if c = CHR ''&'' then ''&amp;''
      else if c = CHR ''<'' then ''&lt;''
      else if c = CHR ''>'' then ''&gt;''
      else if c = CHR 0x22 then ''&#34;''
      else if c = CHR 0x27 then ''&#39;''
      else [c]) @ htmlEscape cs"

text \<open>
  \<^verbatim>\<open>http.Redirect(w, r, url, code)\<close>, for a \<open>url\<close> that is an absolute, clean path of
  ASCII characters, as both calls of the program pass (for such a path the function's
  cleaning and percent-encoding change nothing): it sets Location; when no Content-Type was
  set and the method is GET or HEAD it sets Content-Type; it calls
  \<^verbatim>\<open>w.WriteHeader(code)\<close>; and when no Content-Type was set and the method is GET it
  prints a short HTML body.
\<close>

definition http_Redirect ::
  "ResponseWriter \<Rightarrow> Request \<Rightarrow> string \<Rightarrow> nat \<Rightarrow> ResponseWriter" where
  "http_Redirect w r url code =
     (let hadCT = (header w ''Content-Type'' \<noteq> None);
          w1 = w\<lparr>header := (header w)(''Location'' \<mapsto> url)\<rparr>;
          w2 = (if \<not> hadCT \<and> (Method r = ''GET'' \<or> Method r = ''HEAD'')
                then w1\<lparr>header := (header w1)(''Content-Type'' \<mapsto> ''text/html; charset=utf-8'')\<rparr>
                else w1);
          w3 = WriteHeader code w2
      in if \<not> hadCT \<and> Method r = ''GET''
         then Write ((''<a href='' @ [CHR 0x22] @ htmlEscape url @ [CHR 0x22] @ ''>''
                      @ StatusText code @ ''</a>.'' @ [CHR 0x0A]) @ [CHR 0x0A]) w3
         else w3)"

section \<open>Templates\<close>

text \<open>
  The two template files are not part of the program. Executing a template on a page is a
  sequence of writes to the response, in order, that either completes or stops with an
  error: "If an error occurs executing the template or writing its output, execution stops,
  but partial results may already have been written to the output writer." A template is
  therefore the function from the page to the chunks written and the error, if any; the
  set \<^verbatim>\<open>templates\<close> maps the names of the parsed files to their templates.
\<close>

type_synonym template = "Page \<Rightarrow> bytes list \<times> error option"

type_synonym template_set = "string \<rightharpoonup> template"

text \<open>
  \<^verbatim>\<open>templates.ExecuteTemplate(w, name, p)\<close>: a name that is not defined is an error
  before anything is written.
\<close>

definition ExecuteTemplate ::
  "template_set \<Rightarrow> ResponseWriter \<Rightarrow> string \<Rightarrow> Page \<Rightarrow> error option \<times> ResponseWriter" where
  "ExecuteTemplate ts w name p =
     (case ts name of
        None \<Rightarrow>
          (Some (ErrorString (''html/template: '' @ [CHR 0x22] @ name @ [CHR 0x22]
                              @ '' is undefined'')), w)
      | Some t \<Rightarrow> (case t p of (chunks, err) \<Rightarrow> (err, fold Write chunks w)))"

text \<open>
  \<^verbatim>\<open>func renderTemplate(w http.ResponseWriter, tmpl string, p *Page) {
    err := templates.ExecuteTemplate(w, tmpl+".html", p)
    if err != nil {
      http.Error(w, err.Error(), http.StatusInternalServerError)
      return } }\<close>
\<close>

definition renderTemplate ::
  "template_set \<Rightarrow> ResponseWriter \<Rightarrow> string \<Rightarrow> Page \<Rightarrow> ResponseWriter" where
  "renderTemplate ts w tmpl p =
     (case ExecuteTemplate ts w (tmpl @ ''.html'') p of
        (Some err, w1) \<Rightarrow> http_Error (Error_text err) 500 w1
      | (None, w1) \<Rightarrow> w1)"

section \<open>Path validation\<close>

text \<open>The character class \<^verbatim>\<open>[a-zA-Z0-9]\<close>.\<close>

definition alnum :: "char \<Rightarrow> bool" where
  "alnum c =
     ((CHR ''a'' \<le> c \<and> c \<le> CHR ''z'') \<or> (CHR ''A'' \<le> c \<and> c \<le> CHR ''Z'')
      \<or> (CHR ''0'' \<le> c \<and> c \<le> CHR ''9''))"

text \<open>
  The regular expressions the program needs, and when a whole string matches one. The
  expression of the source is anchored at both ends by \<^verbatim>\<open>^\<close> and \<^verbatim>\<open>$\<close>, which in Go
  (without the flag m) are the beginning and the end of the text.
\<close>

datatype regexp = Lit string | AlNum | Alt regexp regexp | Seq regexp regexp | Plus regexp

inductive matches :: "regexp \<Rightarrow> string \<Rightarrow> bool" where
  Lit: "matches (Lit s) s"
| AlNum: "alnum c \<Longrightarrow> matches AlNum [c]"
| AltL: "matches a u \<Longrightarrow> matches (Alt a b) u"
| AltR: "matches b u \<Longrightarrow> matches (Alt a b) u"
| Seq: "matches a u \<Longrightarrow> matches b v \<Longrightarrow> matches (Seq a b) (u @ v)"
| Plus1: "matches a u \<Longrightarrow> matches (Plus a) u"
| PlusS: "matches a u \<Longrightarrow> matches (Plus a) v \<Longrightarrow> matches (Plus a) (u @ v)"

text \<open>
  \<^verbatim>\<open>var validPath = regexp.MustCompile("^/(edit|save|view)/([a-zA-Z0-9]+)$")\<close>
\<close>

definition validPath :: regexp where
  "validPath =
     Seq (Lit ''/'')
       (Seq (Alt (Lit ''edit'') (Alt (Lit ''save'') (Lit ''view'')))
          (Seq (Lit ''/'') (Plus AlNum)))"

text \<open>The rest of a string after a literal prefix, if it starts with it.\<close>

fun strip_prefix :: "string \<Rightarrow> string \<Rightarrow> string option" where
  "strip_prefix [] s = Some s"
| "strip_prefix (c # cs) [] = None"
| "strip_prefix (c # cs) (d # ds) = (if c = d then strip_prefix cs ds else None)"

text \<open>The group \<^verbatim>\<open>(edit|save|view)\<close>: the alternative matched and the rest.\<close>

definition match_verb :: "string \<Rightarrow> (string \<times> string) option" where
  "match_verb s =
     (case strip_prefix ''edit'' s of
        Some t \<Rightarrow> Some (''edit'', t)
      | None \<Rightarrow>
          (case strip_prefix ''save'' s of
             Some t \<Rightarrow> Some (''save'', t)
           | None \<Rightarrow>
               (case strip_prefix ''view'' s of
                  Some t \<Rightarrow> Some (''view'', t)
                | None \<Rightarrow> None)))"

text \<open>
  \<^verbatim>\<open>validPath.FindStringSubmatch(path)\<close>, as a matcher for this one expression: no match
  is \<^verbatim>\<open>nil\<close>; a match is the matched text and the text of the two groups. The three
  alternatives exclude each other and the second group runs to the end of the text, so
  there is nothing to backtrack. Lemma \<open>validPath_FindStringSubmatch_matches\<close> below shows
  that it matches exactly the strings of \<open>validPath\<close>.
\<close>

definition validPath_FindStringSubmatch :: "string \<Rightarrow> string list option" where
  "validPath_FindStringSubmatch path =
     (case strip_prefix ''/'' path of
        None \<Rightarrow> None
      | Some s1 \<Rightarrow>
          (case match_verb s1 of
             None \<Rightarrow> None
           | Some (verb, s2) \<Rightarrow>
               (case strip_prefix ''/'' s2 of
                  None \<Rightarrow> None
                | Some title \<Rightarrow>
                    if title \<noteq> [] \<and> list_all alnum title
                    then Some [path, verb, title] else None)))"

text \<open>
  \<^verbatim>\<open>func getTitle(w http.ResponseWriter, r *http.Request) (string, error) {
    m := validPath.FindStringSubmatch(r.URL.Path)
    if m == nil {
      http.NotFound(w, r)
      return "", errors.New("invalid Page Title") }
    return m[2], nil }\<close>
\<close>

definition getTitle :: "ResponseWriter \<Rightarrow> Request \<Rightarrow> ResponseWriter \<times> (error + string)" where
  "getTitle w r =
     (case validPath_FindStringSubmatch (URL_Path r) of
        None \<Rightarrow> (http_NotFound w r, Inl (ErrorString ''invalid Page Title''))
      | Some m \<Rightarrow> (w, Inr (m ! 2)))"

section \<open>Request handlers\<close>

text \<open>
  \<^verbatim>\<open>func viewHandler(w http.ResponseWriter, r *http.Request) {
    title, err := getTitle(w, r)
    if err != nil { return }
    p, err := loadPage(title)
    if err != nil {
      http.Redirect(w, r, "/edit/"+title, http.StatusFound)
      return }
    renderTemplate(w, "view", p) }\<close>
\<close>

definition viewHandler ::
  "template_set \<Rightarrow> ResponseWriter \<Rightarrow> Request \<Rightarrow> os_state \<Rightarrow> ResponseWriter \<times> os_state" where
  "viewHandler ts w r s =
     (case getTitle w r of
        (w1, Inl err) \<Rightarrow> (w1, s)
      | (w1, Inr title) \<Rightarrow>
          (case loadPage title s of
             (Inl err, s1) \<Rightarrow> (http_Redirect w1 r (''/edit/'' @ title) 302, s1)
           | (Inr p, s1) \<Rightarrow> (renderTemplate ts w1 ''view'' p, s1)))"

text \<open>
  \<^verbatim>\<open>func editHandler(w http.ResponseWriter, r *http.Request) {
    title, err := getTitle(w, r)
    if err != nil { return }
    p, err := loadPage(title)
    if err != nil { p = &Page{Title: title} }
    renderTemplate(w, "edit", p) }\<close>
\<close>

definition editHandler ::
  "template_set \<Rightarrow> ResponseWriter \<Rightarrow> Request \<Rightarrow> os_state \<Rightarrow> ResponseWriter \<times> os_state" where
  "editHandler ts w r s =
     (case getTitle w r of
        (w1, Inl err) \<Rightarrow> (w1, s)
      | (w1, Inr title) \<Rightarrow>
          (case loadPage title s of
             (Inl err, s1) \<Rightarrow> (renderTemplate ts w1 ''edit'' \<lparr>Title = title, Body = []\<rparr>, s1)
           | (Inr p, s1) \<Rightarrow> (renderTemplate ts w1 ''edit'' p, s1)))"

text \<open>
  \<^verbatim>\<open>func saveHandler(w http.ResponseWriter, r *http.Request) {
    title, err := getTitle(w, r)
    if err != nil { return }
    body := r.FormValue("body")
    p := &Page{Title: title, Body: []byte(body)}
    err = p.save()
    if err != nil {
      http.Error(w, err.Error(), http.StatusInternalServerError)
      return }
    http.Redirect(w, r, "/view/"+title, http.StatusFound) }\<close>
\<close>

definition saveHandler ::
  "ResponseWriter \<Rightarrow> Request \<Rightarrow> os_state \<Rightarrow> ResponseWriter \<times> os_state" where
  "saveHandler w r s =
     (case getTitle w r of
        (w1, Inl err) \<Rightarrow> (w1, s)
      | (w1, Inr title) \<Rightarrow>
          (let body = FormValue r ''body'';
               p = \<lparr>Title = title, Body = body\<rparr>
           in case save p s of
                (Some err, s1) \<Rightarrow> (http_Error (Error_text err) 500 w1, s1)
              | (None, s1) \<Rightarrow> (http_Redirect w1 r (''/view/'' @ title) 302, s1)))"

text \<open>
  The server calls the handler registered for the path with the writer of a new request and
  finishes the request when the handler returns. \<^verbatim>\<open>main\<close> registers the three
  handlers under \<^verbatim>\<open>/view/\<close>, \<^verbatim>\<open>/edit/\<close> and \<^verbatim>\<open>/save/\<close>, for every method.
\<close>

definition serve ::
  "(ResponseWriter \<Rightarrow> Request \<Rightarrow> os_state \<Rightarrow> ResponseWriter \<times> os_state)
   \<Rightarrow> Request \<Rightarrow> os_state \<Rightarrow> ResponseWriter \<times> os_state" where
  "serve h r s = (case h new_ResponseWriter r s of (w, s1) \<Rightarrow> (finishRequest w, s1))"

section \<open>Example inputs\<close>

text \<open>
  An empty working directory, with the usual umask 022 and an environment that refuses
  nothing; and the same with a file \<^verbatim>\<open>Foo.txt\<close> of mode 0644 in it.
\<close>

definition example_os :: os_state where
  "example_os =
     \<lparr>files = Map.empty, umask = 0x12, read_fault = (\<lambda>name. None),
      write_fault = (\<lambda>name data. None), io_log = []\<rparr>"

definition example_os_Foo :: os_state where
  "example_os_Foo =
     example_os\<lparr>files := [''Foo.txt'' \<mapsto> \<lparr>content = ''old text'', mode = 0x1A4\<rparr>]\<rparr>"

text \<open>A request with the form field \<^verbatim>\<open>body=hello\<close> in a urlencoded body.\<close>

definition example_request :: "string \<Rightarrow> string \<Rightarrow> Request" where
  "example_request m path =
     \<lparr>Method = m, URL_Path = path, URL_Query = [],
      UrlencodedBody = [(''body'', ''hello'')], MultipartBody = []\<rparr>"

text \<open>A request with no form data at all.\<close>

definition example_request_no_form :: "string \<Rightarrow> string \<Rightarrow> Request" where
  "example_request_no_form m path =
     \<lparr>Method = m, URL_Path = path, URL_Query = [], UrlencodedBody = [], MultipartBody = []\<rparr>"

text \<open>A request with the form field \<^verbatim>\<open>body=hello\<close> in the query of the URL.\<close>

definition example_request_query :: "string \<Rightarrow> string \<Rightarrow> Request" where
  "example_request_query m path =
     \<lparr>Method = m, URL_Path = path, URL_Query = [(''body'', ''hello'')],
      UrlencodedBody = [], MultipartBody = []\<rparr>"

text \<open>The same directory on a full disk: every write fails before its first byte.\<close>

definition example_os_full :: os_state where
  "example_os_full =
     example_os_Foo\<lparr>write_fault :=
        (\<lambda>name data. Some (WriteFailed 0 (PathError ''write'' name ''no space left on device'')))\<rparr>"

text \<open>
  Two templates that show the title and the body of the page, written in pieces as the
  template package does.
\<close>

definition example_edit_template :: template where
  "example_edit_template p =
     ([''<h1>Editing '', Title p, ''</h1><textarea>'', Body p, ''</textarea>''], None)"

definition example_view_template :: template where
  "example_view_template p = ([''<h1>'', Title p, ''</h1><div>'', Body p, ''</div>''], None)"

definition example_templates :: template_set where
  "example_templates =
     [''edit.html'' \<mapsto> example_edit_template, ''view.html'' \<mapsto> example_view_template]"

text \<open>
  A view template that names a field \<^verbatim>\<open>Text\<close>, which a Page does not have:
  \<^verbatim>\<open><h1>{{.Title}}</h1><div>{{.Text}}</div>\<close>. The file parses; executing it writes the
  text before the action and then stops with an error.
\<close>

definition template_error :: error where
  "template_error =
     ErrorString ''template: view.html: executing view.html at <.Text>: no field Text in type *main.Page''"

definition failing_view_template :: template where
  "failing_view_template p = ([''<h1>'', Title p, ''</h1><div>''], Some template_error)"

definition failing_templates :: template_set where
  "failing_templates =
     [''edit.html'' \<mapsto> example_edit_template, ''view.html'' \<mapsto> failing_view_template]"

section \<open>Path validation: the language of validPath\<close>

lemma strip_prefix_iff: "strip_prefix p s = Some t \<longleftrightarrow> s = p @ t"
proof (induction p s rule: strip_prefix.induct)
  case (1 s)
  show ?case by auto
next
  case (2 c cs)
  show ?case by simp
next
  case (3 c cs d ds)
  then show ?case by auto
qed

lemma match_verb_iff:
  "match_verb s = Some (verb, t) \<longleftrightarrow>
     (verb = ''edit'' \<or> verb = ''save'' \<or> verb = ''view'') \<and> s = verb @ t"
  unfolding match_verb_def
  by (auto simp: strip_prefix_iff split: option.splits)

text \<open>
  A path matches exactly when it is a slash, one of the three words, a slash and a
  non-empty title of letters and digits; the match then gives the path, the word and the
  title.
\<close>

lemma validPath_FindStringSubmatch_iff:
  "validPath_FindStringSubmatch path = Some m \<longleftrightarrow>
     (\<exists>verb title. (verb = ''edit'' \<or> verb = ''save'' \<or> verb = ''view'')
        \<and> title \<noteq> [] \<and> list_all alnum title
        \<and> path = ''/'' @ verb @ ''/'' @ title \<and> m = [path, verb, title])"
proof
  assume "validPath_FindStringSubmatch path = Some m"
  then show "\<exists>verb title. (verb = ''edit'' \<or> verb = ''save'' \<or> verb = ''view'')
        \<and> title \<noteq> [] \<and> list_all alnum title
        \<and> path = ''/'' @ verb @ ''/'' @ title \<and> m = [path, verb, title]"
    unfolding validPath_FindStringSubmatch_def
    by (auto simp: strip_prefix_iff match_verb_iff split: option.splits if_splits)
next
  assume "\<exists>verb title. (verb = ''edit'' \<or> verb = ''save'' \<or> verb = ''view'')
        \<and> title \<noteq> [] \<and> list_all alnum title
        \<and> path = ''/'' @ verb @ ''/'' @ title \<and> m = [path, verb, title]"
  then show "validPath_FindStringSubmatch path = Some m"
    by (auto simp: validPath_FindStringSubmatch_def match_verb_def)
qed

inductive_cases matches_LitE: "matches (Lit s) u"
inductive_cases matches_AlNumE: "matches AlNum u"
inductive_cases matches_AltE: "matches (Alt a b) u"
inductive_cases matches_SeqE: "matches (Seq a b) u"

lemma matches_Lit_iff: "matches (Lit s) u \<longleftrightarrow> u = s"
  by (auto intro: matches.Lit elim: matches_LitE)

lemma matches_AlNum_iff: "matches AlNum u \<longleftrightarrow> (\<exists>c. alnum c \<and> u = [c])"
  by (auto intro: matches.AlNum elim: matches_AlNumE)

lemma matches_Alt_iff: "matches (Alt a b) u \<longleftrightarrow> matches a u \<or> matches b u"
  by (auto intro: matches.AltL matches.AltR elim: matches_AltE)

lemma matches_Seq_iff: "matches (Seq a b) w \<longleftrightarrow> (\<exists>u v. w = u @ v \<and> matches a u \<and> matches b v)"
  by (blast intro: matches.Seq elim: matches_SeqE)

lemma matches_Plus_AlNum_imp:
  assumes "matches r t" and "r = Plus AlNum"
  shows "t \<noteq> [] \<and> list_all alnum t"
  using assms
proof (induction rule: matches.induct)
  case (Plus1 a u)
  then show ?case by (auto simp: matches_AlNum_iff)
next
  case (PlusS a u v)
  then show ?case by (auto simp: matches_AlNum_iff)
qed simp_all

lemma matches_Plus_AlNum_conv:
  assumes "t \<noteq> []" and "list_all alnum t"
  shows "matches (Plus AlNum) t"
  using assms
proof (induction t)
  case Nil
  then show ?case by simp
next
  case (Cons c t)
  show ?case
  proof (cases "t = []")
    case True
    then show ?thesis
      using Cons.prems by (auto intro: matches.Plus1 matches.AlNum)
  next
    case False
    then have "matches (Plus AlNum) t"
      using Cons by simp
    moreover have "matches AlNum [c]"
      using Cons.prems by (auto intro: matches.AlNum)
    ultimately have "matches (Plus AlNum) ([c] @ t)"
      by (rule matches.PlusS [rotated])
    then show ?thesis by simp
  qed
qed

lemma matches_Plus_AlNum_iff: "matches (Plus AlNum) t \<longleftrightarrow> t \<noteq> [] \<and> list_all alnum t"
  using matches_Plus_AlNum_imp matches_Plus_AlNum_conv by blast

lemma matches_validPath_iff:
  "matches validPath path \<longleftrightarrow>
     (\<exists>verb title. (verb = ''edit'' \<or> verb = ''save'' \<or> verb = ''view'')
        \<and> title \<noteq> [] \<and> list_all alnum title \<and> path = ''/'' @ verb @ ''/'' @ title)"
  unfolding validPath_def matches_Seq_iff matches_Alt_iff matches_Lit_iff matches_Plus_AlNum_iff
  by auto

lemma validPath_FindStringSubmatch_matches:
  "validPath_FindStringSubmatch path \<noteq> None \<longleftrightarrow> matches validPath path"
proof -
  have "validPath_FindStringSubmatch path \<noteq> None \<longleftrightarrow>
      (\<exists>m. validPath_FindStringSubmatch path = Some m)"
    by auto
  also have "\<dots> \<longleftrightarrow> (\<exists>verb title. (verb = ''edit'' \<or> verb = ''save'' \<or> verb = ''view'')
        \<and> title \<noteq> [] \<and> list_all alnum title \<and> path = ''/'' @ verb @ ''/'' @ title)"
    unfolding validPath_FindStringSubmatch_iff by blast
  finally show ?thesis
    by (simp only: matches_validPath_iff)
qed

lemma getTitle_valid:
  assumes "title \<noteq> []" and "list_all alnum title"
    and "verb = ''edit'' \<or> verb = ''save'' \<or> verb = ''view''"
    and "URL_Path r = ''/'' @ verb @ ''/'' @ title"
  shows "getTitle w r = (w, Inr title)"
proof -
  have "validPath_FindStringSubmatch (URL_Path r) = Some [URL_Path r, verb, title]"
    using assms validPath_FindStringSubmatch_iff by blast
  then show ?thesis by (simp add: getTitle_def)
qed

lemma getTitle_invalid:
  "validPath_FindStringSubmatch (URL_Path r) = None \<Longrightarrow>
     getTitle w r = (http_NotFound w r, Inl (ErrorString ''invalid Page Title''))"
  by (simp add: getTitle_def)

section \<open>Storage\<close>

lemma save_success:
  assumes "save p s = (None, s')"
  shows "write_fault s (Title p @ ''.txt'') (Body p) = None"
    and "s' = store_file (Title p @ ''.txt'') (Body p) perm_0600
                (s\<lparr>io_log := io_log s @ [EvWriteFile (Title p @ ''.txt'') (Body p) perm_0600]\<rparr>)"
  using assms
  by (auto simp: save_def os_WriteFile_def Let_def split: option.splits write_failure.splits)

lemma save_no_fault:
  assumes "write_fault s (Title p @ ''.txt'') (Body p) = None"
  shows "save p s = (None, store_file (Title p @ ''.txt'') (Body p) perm_0600
                (s\<lparr>io_log := io_log s @ [EvWriteFile (Title p @ ''.txt'') (Body p) perm_0600]\<rparr>))"
  using assms by (simp add: save_def os_WriteFile_def Let_def)

lemma save_io_log:
  "io_log (snd (save p s)) = io_log s @ [EvWriteFile (Title p @ ''.txt'') (Body p) perm_0600]"
  by (simp add: save_def os_WriteFile_def store_file_def Let_def
      split: option.splits write_failure.splits)

lemma save_files:
  assumes "save p s = (None, s')"
  shows "files s' = (files s)(Title p @ ''.txt'' \<mapsto>
           \<lparr>content = Body p,
            mode = (case files s (Title p @ ''.txt'') of
                      None \<Rightarrow> perm_0600 AND NOT (umask s)
                    | Some f \<Rightarrow> mode f)\<rparr>)"
  by (simp add: save_success(2) [OF assms] store_file_def split: option.splits)

lemma save_result_None: "fst (save p s) = None \<Longrightarrow> save p s = (None, snd (save p s))"
  by (simp add: prod_eq_iff)

lemma save_result_Some: "fst (save p s) = Some e \<Longrightarrow> save p s = (Some e, snd (save p s))"
  by (simp add: prod_eq_iff)

lemma loadPage_present:
  assumes "read_fault s (title @ ''.txt'') = None"
    and "files s (title @ ''.txt'') = Some f"
  shows "fst (loadPage title s) = Inr \<lparr>Title = title, Body = content f\<rparr>"
  using assms by (simp add: loadPage_def os_ReadFile_def Let_def)

lemma loadPage_missing:
  assumes "files s (title @ ''.txt'') = None"
  shows "isl (fst (loadPage title s))"
  using assms by (simp add: loadPage_def os_ReadFile_def Let_def split: option.splits)

lemma loadPage_state:
  "snd (loadPage title s) = s\<lparr>io_log := io_log s @ [EvReadFile (title @ ''.txt'')]\<rparr>"
  by (simp add: loadPage_def os_ReadFile_def Let_def split: option.splits)

text \<open>Mode 0600 less any umask leaves group and others without access.\<close>

lemma perm_created: "(perm_0600 AND NOT u) AND perm_0077 = 0"
proof (rule bit_eqI)
  fix n
  have "perm_0600 AND perm_0077 = 0"
    by (simp add: perm_0600_def perm_0077_def)
  then have "\<not> bit (perm_0600 AND perm_0077) n" by simp
  then show "bit ((perm_0600 AND NOT u) AND perm_0077) n \<longleftrightarrow> bit (0 :: FileMode) n"
    by (auto simp: bit_and_iff bit_not_iff)
qed

lemma perm_unmasked:
  assumes "u AND perm_0600 = 0"
  shows "perm_0600 AND NOT u = perm_0600"
proof (rule bit_eqI)
  fix n
  have "\<not> bit (u AND perm_0600) n" using assms by simp
  then show "bit (perm_0600 AND NOT u) n \<longleftrightarrow> bit perm_0600 n"
    by (auto simp: bit_and_iff bit_not_iff dest: bit_imp_possible_bit)
qed

text \<open>
  Claim C1. For every title of letters and digits and every body: when saving the page
  returns no error and the environment does not refuse reading the file, loading the same
  title succeeds and returns the page with exactly the bytes that were saved.
\<close>

theorem save_loadPage_roundtrip:
  assumes "title \<noteq> []" and "list_all alnum title"
    and "save \<lparr>Title = title, Body = b\<rparr> s = (None, s')"
    and "read_fault s (title @ ''.txt'') = None"
  shows "fst (loadPage title s') = Inr \<lparr>Title = title, Body = b\<rparr>"
proof -
  have s': "s' = store_file (title @ ''.txt'') b perm_0600
                (s\<lparr>io_log := io_log s @ [EvWriteFile (title @ ''.txt'') b perm_0600]\<rparr>)"
    using save_success(2) [OF assms(3)] by simp
  have "read_fault s' (title @ ''.txt'') = None"
    using assms(4) by (simp add: s' store_file_def)
  moreover have "\<exists>m. files s' (title @ ''.txt'') = Some \<lparr>content = b, mode = m\<rparr>"
    by (simp add: s' store_file_def)
  ultimately show ?thesis
    using loadPage_present by fastforce
qed

text \<open>Saving \<^verbatim>\<open>hello\<close> as Foo in the empty directory and loading Foo.\<close>

theorem save_loadPage_roundtrip_witness:
  "fst (loadPage ''Foo'' (snd (save \<lparr>Title = ''Foo'', Body = ''hello''\<rparr> example_os)))
     = Inr \<lparr>Title = ''Foo'', Body = ''hello''\<rparr>"
proof -
  have ok: "save \<lparr>Title = ''Foo'', Body = ''hello''\<rparr> example_os
          = (None, snd (save \<lparr>Title = ''Foo'', Body = ''hello''\<rparr> example_os))"
    by (simp add: save_def os_WriteFile_def example_os_def Let_def)
  show ?thesis
    using save_loadPage_roundtrip [OF _ _ ok]
    by (simp add: alnum_def example_os_def)
qed

text \<open>
  Claim C7, as the code has it. When save returns no error, the file
  \<^verbatim>\<open>Title + ".txt"\<close> holds exactly the body (it is created if absent and truncated if
  present) and no other file has changed; the one call to the file system is a write of the
  body to that file with mode 0600. The mode is that of a file the call creates: 0600 less
  the bits of the umask, which gives group and others no access, and exactly 0600 when the
  umask masks no owner bit. A file that already exists keeps the permissions it has.
\<close>

theorem save_writes_body_and_creates_with_mode_0600:
  assumes "save p s = (None, s')"
  shows "files s' (Title p @ ''.txt'')
           = Some \<lparr>content = Body p,
                   mode = (case files s (Title p @ ''.txt'') of
                             None \<Rightarrow> perm_0600 AND NOT (umask s)
                           | Some f \<Rightarrow> mode f)\<rparr>
       \<and> (\<forall>n. n \<noteq> Title p @ ''.txt'' \<longrightarrow> files s' n = files s n)
       \<and> io_log s' = io_log s @ [EvWriteFile (Title p @ ''.txt'') (Body p) perm_0600]
       \<and> (perm_0600 AND NOT (umask s)) AND perm_0077 = 0
       \<and> (umask s AND perm_0600 = 0 \<longrightarrow> perm_0600 AND NOT (umask s) = perm_0600)"
proof -
  note f = save_files [OF assms]
  have a: "files s' (Title p @ ''.txt'')
           = Some \<lparr>content = Body p,
                   mode = (case files s (Title p @ ''.txt'') of
                             None \<Rightarrow> perm_0600 AND NOT (umask s)
                           | Some f \<Rightarrow> mode f)\<rparr>"
    by (simp add: f)
  have b: "\<forall>n. n \<noteq> Title p @ ''.txt'' \<longrightarrow> files s' n = files s n"
    by (simp add: f)
  have c: "io_log s' = io_log s @ [EvWriteFile (Title p @ ''.txt'') (Body p) perm_0600]"
    using save_io_log [of p s] assms by simp
  from a b c perm_created [of "umask s"] perm_unmasked [of "umask s"] show ?thesis
    by blast
qed

text \<open>
  Saving Foo in the empty directory creates Foo.txt with mode 0600; saving Foo where
  Foo.txt exists with mode 0644 replaces the bytes and keeps 0644; saving Bar there leaves
  Foo.txt as it is.
\<close>

theorem save_writes_body_and_creates_with_mode_0600_witness:
  "files (snd (save \<lparr>Title = ''Foo'', Body = ''new''\<rparr> example_os)) ''Foo.txt''
     = Some \<lparr>content = ''new'', mode = perm_0600\<rparr>
   \<and> files (snd (save \<lparr>Title = ''Foo'', Body = ''new''\<rparr> example_os_Foo)) ''Foo.txt''
     = Some \<lparr>content = ''new'', mode = 0x1A4\<rparr>
   \<and> files (snd (save \<lparr>Title = ''Bar'', Body = ''new''\<rparr> example_os_Foo)) ''Foo.txt''
     = Some \<lparr>content = ''old text'', mode = 0x1A4\<rparr>"
proof -
  have a: "save \<lparr>Title = ''Foo'', Body = ''new''\<rparr> example_os
      = (None, snd (save \<lparr>Title = ''Foo'', Body = ''new''\<rparr> example_os))"
    by (rule save_result_None) (simp add: save_def os_WriteFile_def example_os_def Let_def)
  have b: "save \<lparr>Title = ''Foo'', Body = ''new''\<rparr> example_os_Foo
      = (None, snd (save \<lparr>Title = ''Foo'', Body = ''new''\<rparr> example_os_Foo))"
    by (rule save_result_None)
      (simp add: save_def os_WriteFile_def example_os_Foo_def example_os_def Let_def)
  have c: "save \<lparr>Title = ''Bar'', Body = ''new''\<rparr> example_os_Foo
      = (None, snd (save \<lparr>Title = ''Bar'', Body = ''new''\<rparr> example_os_Foo))"
    by (rule save_result_None)
      (simp add: save_def os_WriteFile_def example_os_Foo_def example_os_def Let_def)
  have u: "umask example_os AND perm_0600 = 0"
    by (simp add: example_os_def perm_0600_def)
  show ?thesis
    using save_writes_body_and_creates_with_mode_0600 [OF a]
      save_writes_body_and_creates_with_mode_0600 [OF b]
      save_writes_body_and_creates_with_mode_0600 [OF c] u
    by (simp add: example_os_def example_os_Foo_def)
qed

text \<open>
  Claim C7 as stated fails where the file exists: after a save without error, Foo.txt still
  has mode 0644 (0x1A4), not 0600, and group and others can read it (0644 AND 0077 = 044).
\<close>

theorem save_keeps_mode_of_existing_file:
  "fst (save \<lparr>Title = ''Foo'', Body = ''new''\<rparr> example_os_Foo) = None
   \<and> files (snd (save \<lparr>Title = ''Foo'', Body = ''new''\<rparr> example_os_Foo)) ''Foo.txt''
       = Some \<lparr>content = ''new'', mode = 0x1A4\<rparr>
   \<and> (0x1A4 :: FileMode) \<noteq> perm_0600
   \<and> (0x1A4 :: FileMode) AND perm_0077 = 0x24"
  by (simp add: save_def os_WriteFile_def store_file_def example_os_Foo_def example_os_def
      Let_def perm_0600_def perm_0077_def)

section \<open>Responses\<close>

text \<open>What the library calls leave in a writer, fresh or already written to.\<close>

lemma http_Error_fresh:
  assumes "\<not> wroteHeader w"
  shows "status (http_Error e c w) = c"
    and "body (http_Error e c w) = body w @ e @ [CHR 0x0A]"
    and "wroteHeader (http_Error e c w)"
    and "sent_header (http_Error e c w) ''Location'' = header w ''Location''"
  using assms by (simp_all add: http_Error_def WriteHeader_def Write_def Let_def)

lemma http_Error_late:
  assumes "wroteHeader w"
  shows "status (http_Error e c w) = status w"
    and "body (http_Error e c w) = body w @ e @ [CHR 0x0A]"
    and "sent_header (http_Error e c w) = sent_header w"
  using assms by (simp_all add: http_Error_def WriteHeader_def Write_def Let_def)

lemma http_Redirect_fresh:
  assumes "\<not> wroteHeader w"
  shows "status (http_Redirect w r url c) = c"
    and "wroteHeader (http_Redirect w r url c)"
    and "sent_header (http_Redirect w r url c) ''Location'' = Some url"
  using assms by (simp_all add: http_Redirect_def WriteHeader_def Write_def Let_def)

lemma finishRequest_wrote: "wroteHeader w \<Longrightarrow> finishRequest w = w"
  by (simp add: finishRequest_def)

lemma fold_Write_body: "body (fold Write cs w) = body w @ concat cs"
  by (induction cs arbitrary: w) (simp_all add: Write_def WriteHeader_def Let_def)

lemma fold_Write_wroteHeader: "wroteHeader (fold Write cs w) \<longleftrightarrow> wroteHeader w \<or> cs \<noteq> []"
  by (induction cs arbitrary: w) (auto simp: Write_def WriteHeader_def Let_def)

lemma fold_Write_status:
  "status (fold Write cs w) = (if wroteHeader w \<or> cs = [] then status w else 200)"
  by (induction cs arbitrary: w) (auto simp: Write_def WriteHeader_def Let_def)

lemma fold_Write_finish_status:
  "\<not> wroteHeader w \<Longrightarrow> status (finishRequest (fold Write cs w)) = 200"
  by (cases cs) (simp_all add: finishRequest_def fold_Write_status fold_Write_wroteHeader WriteHeader_def
       Write_def Let_def)

lemma fold_Write_finish_body:
  "body (finishRequest (fold Write cs w)) = body w @ concat cs"
  by (simp add: finishRequest_def WriteHeader_def fold_Write_body)

lemma http_Error_wroteHeader: "wroteHeader (http_Error e c w)"
  by (simp add: http_Error_def WriteHeader_def Write_def Let_def)

lemma fold_Write_header: "header (fold Write cs w) = header w"
  by (induction cs arbitrary: w) (simp_all add: Write_def WriteHeader_def Let_def)

lemma new_ResponseWriter_simps:
  "\<not> wroteHeader new_ResponseWriter" "body new_ResponseWriter = []"
  "header new_ResponseWriter k = None"
  by (simp_all add: new_ResponseWriter_def)

lemma htmlEscape_append: "htmlEscape (a @ b) = htmlEscape a @ htmlEscape b"
  by (induction a) simp_all

lemma alnum_not_special:
  assumes "alnum c"
  shows "c \<noteq> CHR ''&''" "c \<noteq> CHR ''<''" "c \<noteq> CHR ''>''" "c \<noteq> CHR 0x22" "c \<noteq> CHR 0x27"
  using assms by (auto simp: alnum_def)

lemma htmlEscape_alnum: "list_all alnum t \<Longrightarrow> htmlEscape t = t"
  by (induction t) (simp_all add: alnum_not_special)

section \<open>Templates and handlers on valid paths\<close>

lemma renderTemplate_ok:
  assumes "ts (tmpl @ ''.html'') = Some t" and "t p = (cs, None)"
  shows "renderTemplate ts w tmpl p = fold Write cs w"
  using assms by (simp add: renderTemplate_def ExecuteTemplate_def)

lemma renderTemplate_error:
  assumes "ts (tmpl @ ''.html'') = Some t" and "t p = (cs, Some e)"
  shows "renderTemplate ts w tmpl p = http_Error (Error_text e) 500 (fold Write cs w)"
  using assms by (simp add: renderTemplate_def ExecuteTemplate_def)

lemma renderTemplate_fresh_ok:
  assumes "ts (tmpl @ ''.html'') = Some t" and "t p = (cs, None)"
  shows "status (finishRequest (renderTemplate ts new_ResponseWriter tmpl p)) = 200"
    and "body (finishRequest (renderTemplate ts new_ResponseWriter tmpl p)) = concat cs"
  using assms
  by (simp_all add: renderTemplate_ok [of ts tmpl t p cs] fold_Write_finish_status
      fold_Write_finish_body new_ResponseWriter_simps)

lemma serve_fst: "fst (serve h r s) = finishRequest (fst (h new_ResponseWriter r s))"
  by (simp add: serve_def split: prod.splits)

lemma serve_snd: "snd (serve h r s) = snd (h new_ResponseWriter r s)"
  by (simp add: serve_def split: prod.splits)

lemma saveHandler_valid:
  assumes "title \<noteq> []" and "list_all alnum title"
    and "URL_Path r = ''/save/'' @ title"
  shows "saveHandler w r s =
      ((case fst (save \<lparr>Title = title, Body = FormValue r ''body''\<rparr> s) of
          Some err \<Rightarrow> http_Error (Error_text err) 500 w
        | None \<Rightarrow> http_Redirect w r (''/view/'' @ title) 302),
       snd (save \<lparr>Title = title, Body = FormValue r ''body''\<rparr> s))"
proof -
  have "getTitle w r = (w, Inr title)"
    using getTitle_valid [OF assms(1,2), of "''save''" r w] assms(3) by simp
  then show ?thesis
    by (cases "save \<lparr>Title = title, Body = FormValue r ''body''\<rparr> s")
      (simp add: saveHandler_def Let_def split: option.splits)
qed

lemma viewHandler_valid:
  assumes "title \<noteq> []" and "list_all alnum title"
    and "URL_Path r = ''/view/'' @ title"
  shows "viewHandler ts w r s =
      ((case fst (loadPage title s) of
          Inl err \<Rightarrow> http_Redirect w r (''/edit/'' @ title) 302
        | Inr p \<Rightarrow> renderTemplate ts w ''view'' p),
       snd (loadPage title s))"
proof -
  have "getTitle w r = (w, Inr title)"
    using getTitle_valid [OF assms(1,2), of "''view''" r w] assms(3) by simp
  then show ?thesis
    by (cases "loadPage title s") (simp add: viewHandler_def split: sum.splits)
qed

lemma editHandler_valid:
  assumes "title \<noteq> []" and "list_all alnum title"
    and "URL_Path r = ''/edit/'' @ title"
  shows "editHandler ts w r s =
      (renderTemplate ts w ''edit''
         (case fst (loadPage title s) of
            Inl err \<Rightarrow> \<lparr>Title = title, Body = []\<rparr>
          | Inr p \<Rightarrow> p),
       snd (loadPage title s))"
proof -
  have "getTitle w r = (w, Inr title)"
    using getTitle_valid [OF assms(1,2), of "''edit''" r w] assms(3) by simp
  then show ?thesis
    by (cases "loadPage title s") (simp add: editHandler_def split: sum.splits)
qed

lemma saveHandler_served:
  assumes "title \<noteq> []" and "list_all alnum title"
    and "URL_Path r = ''/save/'' @ title"
  shows "fst (serve saveHandler r s) =
      (case fst (save \<lparr>Title = title, Body = FormValue r ''body''\<rparr> s) of
         Some err \<Rightarrow> http_Error (Error_text err) 500 new_ResponseWriter
       | None \<Rightarrow> http_Redirect new_ResponseWriter r (''/view/'' @ title) 302)"
    and "snd (serve saveHandler r s) = snd (save \<lparr>Title = title, Body = FormValue r ''body''\<rparr> s)"
  by (simp_all add: serve_fst serve_snd saveHandler_valid [OF assms] finishRequest_wrote
      http_Redirect_fresh(2) http_Error_fresh(3) new_ResponseWriter_simps split: option.splits)

lemma viewHandler_match:
  assumes "validPath_FindStringSubmatch (URL_Path r) = Some mm"
  shows "viewHandler ts w r s =
      ((case fst (loadPage (mm ! 2) s) of
          Inl err \<Rightarrow> http_Redirect w r (''/edit/'' @ mm ! 2) 302
        | Inr p \<Rightarrow> renderTemplate ts w ''view'' p),
       snd (loadPage (mm ! 2) s))"
  by (cases "loadPage (mm ! 2) s") (simp add: viewHandler_def getTitle_def assms split: sum.splits)

section \<open>Invalid paths\<close>

text \<open>
  Claim C2. For every request whose path does not match \<open>validPath\<close>, each of the three
  handlers does what \<^verbatim>\<open>http.NotFound\<close> does and nothing else: the response is 404 with
  the text of NotFound, and the state of the operating system is the one before the
  request, so no file was read or written (the log of file-system calls is part of the
  state).
\<close>

theorem invalid_path_404_no_io:
  assumes "\<not> matches validPath (URL_Path r)"
  shows "viewHandler ts w r s = (http_NotFound w r, s)
       \<and> editHandler ts w r s = (http_NotFound w r, s)
       \<and> saveHandler w r s = (http_NotFound w r, s)
       \<and> serve (viewHandler ts) r s = (http_NotFound new_ResponseWriter r, s)
       \<and> serve (editHandler ts) r s = (http_NotFound new_ResponseWriter r, s)
       \<and> serve saveHandler r s = (http_NotFound new_ResponseWriter r, s)
       \<and> status (http_NotFound new_ResponseWriter r) = 404
       \<and> body (http_NotFound new_ResponseWriter r) = ''404 page not found'' @ [CHR 0x0A]"
proof -
  have none: "validPath_FindStringSubmatch (URL_Path r) = None"
    using assms validPath_FindStringSubmatch_matches by blast
  have v: "viewHandler ts w r s = (http_NotFound w r, s)" for w
    by (simp add: viewHandler_def getTitle_invalid [OF none])
  have e: "editHandler ts w r s = (http_NotFound w r, s)" for w
    by (simp add: editHandler_def getTitle_invalid [OF none])
  have sv: "saveHandler w r s = (http_NotFound w r, s)" for w
    by (simp add: saveHandler_def getTitle_invalid [OF none])
  have fin: "finishRequest (http_NotFound new_ResponseWriter r) = http_NotFound new_ResponseWriter r"
    by (simp add: http_NotFound_def finishRequest_wrote http_Error_fresh(3) new_ResponseWriter_simps)
  show ?thesis
    by (simp add: v e sv fin serve_def [of "viewHandler ts"] serve_def [of "editHandler ts"]
        serve_def [of saveHandler])
      (simp add: http_NotFound_def http_Error_fresh new_ResponseWriter_simps)
qed

text \<open>
  A save and a view whose title is the path traversal \<^verbatim>\<open>../secret\<close>, in the directory
  that holds Foo.txt: 404, and the directory and the log are as before.
\<close>

theorem invalid_path_404_no_io_witness:
  "serve saveHandler (example_request ''POST'' ''/save/../secret'') example_os_Foo
     = (http_NotFound new_ResponseWriter (example_request ''POST'' ''/save/../secret''), example_os_Foo)
   \<and> serve (viewHandler example_templates) (example_request ''GET'' ''/view/../secret'') example_os_Foo
     = (http_NotFound new_ResponseWriter (example_request ''GET'' ''/view/../secret''), example_os_Foo)
   \<and> status (http_NotFound new_ResponseWriter (example_request ''POST'' ''/save/../secret'')) = 404"
proof -
  have a: "\<not> matches validPath (URL_Path (example_request ''POST'' ''/save/../secret''))"
    unfolding validPath_FindStringSubmatch_matches [symmetric]
    by (simp add: example_request_def validPath_FindStringSubmatch_def match_verb_def alnum_def)
  have b: "\<not> matches validPath (URL_Path (example_request ''GET'' ''/view/../secret''))"
    unfolding validPath_FindStringSubmatch_matches [symmetric]
    by (simp add: example_request_def validPath_FindStringSubmatch_def match_verb_def alnum_def)
  show ?thesis
    using invalid_path_404_no_io [OF a, of example_templates new_ResponseWriter example_os_Foo]
      invalid_path_404_no_io [OF b, of example_templates new_ResponseWriter example_os_Foo]
    by blast
qed

section \<open>The save handler\<close>

text \<open>
  Claim C3. For every request to \<^verbatim>\<open>/save/<title>\<close> with a title of letters and digits,
  the handler calls save once, for the page made of the title and of the form value
  \<^verbatim>\<open>body\<close>. When save returns no error the file holds exactly that value and the response
  is 302 with Location \<^verbatim>\<open>/view/<title>\<close>. When save returns an error the response is 500,
  its body is the text of that error and a newline, and no Location is sent.
\<close>

theorem saveHandler_persists_and_redirects_or_500:
  assumes "title \<noteq> []" and "list_all alnum title"
    and "URL_Path r = ''/save/'' @ title"
  shows "io_log (snd (serve saveHandler r s))
           = io_log s @ [EvWriteFile (title @ ''.txt'') (FormValue r ''body'') perm_0600]
       \<and> snd (serve saveHandler r s) = snd (save \<lparr>Title = title, Body = FormValue r ''body''\<rparr> s)
       \<and> (fst (save \<lparr>Title = title, Body = FormValue r ''body''\<rparr> s) = None \<longrightarrow>
            map_option content (files (snd (serve saveHandler r s)) (title @ ''.txt''))
              = Some (FormValue r ''body'')
          \<and> status (fst (serve saveHandler r s)) = 302
          \<and> sent_header (fst (serve saveHandler r s)) ''Location'' = Some (''/view/'' @ title))
       \<and> (\<forall>e. fst (save \<lparr>Title = title, Body = FormValue r ''body''\<rparr> s) = Some e \<longrightarrow>
            status (fst (serve saveHandler r s)) = 500
          \<and> body (fst (serve saveHandler r s)) = Error_text e @ [CHR 0x0A]
          \<and> sent_header (fst (serve saveHandler r s)) ''Location'' = None)"
proof -
  let ?p = "\<lparr>Title = title, Body = FormValue r ''body''\<rparr>"
  note h = saveHandler_valid [OF assms]
  have st: "snd (serve saveHandler r s) = snd (save ?p s)"
    by (simp add: serve_snd h)
  have log: "io_log (snd (save ?p s))
      = io_log s @ [EvWriteFile (title @ ''.txt'') (FormValue r ''body'') perm_0600]"
    using save_io_log [of ?p s] by simp
  have ok: "map_option content (files (snd (serve saveHandler r s)) (title @ ''.txt''))
              = Some (FormValue r ''body'')
          \<and> status (fst (serve saveHandler r s)) = 302
          \<and> sent_header (fst (serve saveHandler r s)) ''Location'' = Some (''/view/'' @ title)"
    if "fst (save ?p s) = None"
  proof -
    have "files (snd (save ?p s)) (title @ ''.txt'') = Some \<lparr>content = FormValue r ''body'',
        mode = (case files s (title @ ''.txt'') of None \<Rightarrow> perm_0600 AND NOT (umask s) | Some f \<Rightarrow> mode f)\<rparr>"
      using save_files [OF save_result_None [OF that]] by simp
    moreover have "fst (serve saveHandler r s) = http_Redirect new_ResponseWriter r (''/view/'' @ title) 302"
      by (simp add: serve_fst h that finishRequest_wrote http_Redirect_fresh(2) new_ResponseWriter_simps)
    ultimately show ?thesis
      by (simp add: st http_Redirect_fresh new_ResponseWriter_simps)
  qed
  have bad: "status (fst (serve saveHandler r s)) = 500
          \<and> body (fst (serve saveHandler r s)) = Error_text e @ [CHR 0x0A]
          \<and> sent_header (fst (serve saveHandler r s)) ''Location'' = None"
    if "fst (save ?p s) = Some e" for e
  proof -
    have "fst (serve saveHandler r s) = http_Error (Error_text e) 500 new_ResponseWriter"
      by (simp add: serve_fst h that finishRequest_wrote http_Error_fresh(3) new_ResponseWriter_simps)
    then show ?thesis
      by (simp add: http_Error_fresh new_ResponseWriter_simps)
  qed
  from st log ok bad show ?thesis by (simp only: simp_thms) blast
qed

text \<open>
  Posting \<^verbatim>\<open>body=hello\<close> to \<^verbatim>\<open>/save/Foo\<close>: in the empty directory, and on the full
  disk.
\<close>

theorem saveHandler_persists_and_redirects_or_500_witness:
  "status (fst (serve saveHandler (example_request ''POST'' ''/save/Foo'') example_os)) = 302
   \<and> sent_header (fst (serve saveHandler (example_request ''POST'' ''/save/Foo'') example_os)) ''Location''
       = Some ''/view/Foo''
   \<and> map_option content (files (snd (serve saveHandler (example_request ''POST'' ''/save/Foo'') example_os)) ''Foo.txt'')
       = Some ''hello''
   \<and> status (fst (serve saveHandler (example_request ''POST'' ''/save/Foo'') example_os_full)) = 500
   \<and> body (fst (serve saveHandler (example_request ''POST'' ''/save/Foo'') example_os_full))
       = ''write Foo.txt: no space left on device'' @ [CHR 0x0A]
   \<and> sent_header (fst (serve saveHandler (example_request ''POST'' ''/save/Foo'') example_os_full)) ''Location''
       = None"
proof -
  have c: "FormValue (example_request ''POST'' ''/save/Foo'') ''body'' = ''hello''"
    by (simp add: FormValue_def ParseForm_def example_request_def)
  have a: "fst (save \<lparr>Title = ''Foo'', Body = ''hello''\<rparr> example_os) = None"
    by (simp add: save_def os_WriteFile_def example_os_def Let_def)
  have b: "fst (save \<lparr>Title = ''Foo'', Body = ''hello''\<rparr> example_os_full)
      = Some (PathError ''write'' ''Foo.txt'' ''no space left on device'')"
    by (simp add: save_def os_WriteFile_def example_os_full_def example_os_Foo_def example_os_def Let_def)
  have v: "''Foo'' \<noteq> []" "list_all alnum ''Foo''"
    by (simp_all add: alnum_def)
  have pth: "URL_Path (example_request ''POST'' ''/save/Foo'') = ''/save/'' @ ''Foo''"
    by (simp add: example_request_def)
  note t1 = saveHandler_persists_and_redirects_or_500 [OF v pth, of example_os, unfolded c]
  note t2 = saveHandler_persists_and_redirects_or_500 [OF v pth, of example_os_full, unfolded c]
  have ok: "map_option content (files (snd (serve saveHandler (example_request ''POST'' ''/save/Foo'') example_os)) (''Foo'' @ ''.txt''))
       = Some ''hello''
     \<and> status (fst (serve saveHandler (example_request ''POST'' ''/save/Foo'') example_os)) = 302
     \<and> sent_header (fst (serve saveHandler (example_request ''POST'' ''/save/Foo'') example_os)) ''Location''
       = Some (''/view/'' @ ''Foo'')"
    using t1 a by blast
  have bad: "status (fst (serve saveHandler (example_request ''POST'' ''/save/Foo'') example_os_full)) = 500
     \<and> body (fst (serve saveHandler (example_request ''POST'' ''/save/Foo'') example_os_full))
       = Error_text (PathError ''write'' ''Foo.txt'' ''no space left on device'') @ [CHR 0x0A]
     \<and> sent_header (fst (serve saveHandler (example_request ''POST'' ''/save/Foo'') example_os_full)) ''Location''
       = None"
    using t2 b by blast
  show ?thesis
    using ok bad by simp
qed

section \<open>The view handler\<close>

text \<open>
  Claim C4. For every request to \<^verbatim>\<open>/view/<title>\<close> with a title of letters and digits:
  when loading the page fails (as it does when the file does not exist, lemma
  \<open>loadPage_missing\<close>), the response is 302 with Location \<^verbatim>\<open>/edit/<title>\<close>, which is not
  \<^verbatim>\<open>/view/<title>\<close>; its body is the link that Redirect writes for GET and empty otherwise,
  so the error is not shown; and no file has changed.
\<close>

theorem viewHandler_load_failure_redirects_to_edit:
  assumes "title \<noteq> []" and "list_all alnum title"
    and "URL_Path r = ''/view/'' @ title"
    and "isl (fst (loadPage title s))"
  shows "status (fst (serve (viewHandler ts) r s)) = 302
       \<and> sent_header (fst (serve (viewHandler ts) r s)) ''Location'' = Some (''/edit/'' @ title)
       \<and> sent_header (fst (serve (viewHandler ts) r s)) ''Location'' \<noteq> Some (''/view/'' @ title)
       \<and> body (fst (serve (viewHandler ts) r s))
           = (if Method r = ''GET''
              then ''<a href='' @ [CHR 0x22] @ ''/edit/'' @ title @ [CHR 0x22] @ ''>Found</a>.''
                   @ [CHR 0x0A, CHR 0x0A]
              else [])
       \<and> files (snd (serve (viewHandler ts) r s)) = files s"
proof -
  obtain e where e: "fst (loadPage title s) = Inl e"
    using assms(4) by (cases "fst (loadPage title s)") simp_all
  have resp: "fst (serve (viewHandler ts) r s)
      = http_Redirect new_ResponseWriter r (''/edit/'' @ title) 302"
    by (simp add: serve_fst viewHandler_valid [OF assms(1-3)] e finishRequest_wrote
        http_Redirect_fresh(2) new_ResponseWriter_simps)
  have esc: "htmlEscape (''/edit/'' @ title) = ''/edit/'' @ title"
    using htmlEscape_append [of "''/edit/''" title] htmlEscape_alnum [OF assms(2)] by simp
  have b: "body (http_Redirect new_ResponseWriter r (''/edit/'' @ title) 302)
      = (if Method r = ''GET''
         then ''<a href='' @ [CHR 0x22] @ ''/edit/'' @ title @ [CHR 0x22] @ ''>Found</a>.''
              @ [CHR 0x0A, CHR 0x0A]
         else [])"
    unfolding http_Redirect_def esc
    by (simp add: StatusText_def WriteHeader_def Write_def Let_def new_ResponseWriter_def)
  have st: "files (snd (serve (viewHandler ts) r s)) = files s"
    by (simp add: serve_snd viewHandler_valid [OF assms(1-3)] loadPage_state)
  have c1: "status (fst (serve (viewHandler ts) r s)) = 302"
    by (simp add: resp http_Redirect_fresh new_ResponseWriter_simps)
  have c2: "sent_header (fst (serve (viewHandler ts) r s)) ''Location'' = Some (''/edit/'' @ title)"
    by (simp add: resp http_Redirect_fresh new_ResponseWriter_simps)
  have c3: "sent_header (fst (serve (viewHandler ts) r s)) ''Location'' \<noteq> Some (''/view/'' @ title)"
    by (simp add: c2)
  have c4: "body (fst (serve (viewHandler ts) r s))
           = (if Method r = ''GET''
              then ''<a href='' @ [CHR 0x22] @ ''/edit/'' @ title @ [CHR 0x22] @ ''>Found</a>.''
                   @ [CHR 0x0A, CHR 0x0A]
              else [])"
    by (simp only: resp b)
  from c1 c2 c3 c4 st show ?thesis by blast
qed

text \<open>Viewing Bar in the directory that holds only Foo.txt.\<close>

theorem viewHandler_load_failure_redirects_to_edit_witness:
  "status (fst (serve (viewHandler example_templates) (example_request ''GET'' ''/view/Bar'') example_os_Foo)) = 302
   \<and> sent_header (fst (serve (viewHandler example_templates) (example_request ''GET'' ''/view/Bar'') example_os_Foo)) ''Location''
       = Some ''/edit/Bar''"
proof -
  have v: "''Bar'' \<noteq> []" "list_all alnum ''Bar''"
    by (simp_all add: alnum_def)
  have pth: "URL_Path (example_request ''GET'' ''/view/Bar'') = ''/view/'' @ ''Bar''"
    by (simp add: example_request_def)
  have missing: "isl (fst (loadPage ''Bar'' example_os_Foo))"
    by (rule loadPage_missing) (simp add: example_os_Foo_def example_os_def)
  show ?thesis
    using viewHandler_load_failure_redirects_to_edit [OF v pth missing, of example_templates]
    by simp
qed

section \<open>The edit handler\<close>

text \<open>
  Claim C5. For every request to \<^verbatim>\<open>/edit/<title>\<close> with a title of letters and digits:
  when loading the page fails, the handler renders the template \<^verbatim>\<open>edit\<close> with the page
  that has the title and an empty body; when loading succeeds, it renders the template
  \<^verbatim>\<open>edit\<close> with the loaded page. In both cases, when the template executes without error
  the response is 200 and its body is the output of the template: the failure to load is not
  shown.
\<close>

theorem editHandler_renders_edit_template_in_both_outcomes:
  assumes "title \<noteq> []" and "list_all alnum title"
    and "URL_Path r = ''/edit/'' @ title"
  shows "(isl (fst (loadPage title s)) \<longrightarrow>
            fst (editHandler ts w r s) = renderTemplate ts w ''edit'' \<lparr>Title = title, Body = []\<rparr>)
       \<and> (\<forall>p. fst (loadPage title s) = Inr p \<longrightarrow>
            fst (editHandler ts w r s) = renderTemplate ts w ''edit'' p)
       \<and> (\<forall>t cs. isl (fst (loadPage title s)) \<and> ts ''edit.html'' = Some t
              \<and> t \<lparr>Title = title, Body = []\<rparr> = (cs, None) \<longrightarrow>
            status (fst (serve (editHandler ts) r s)) = 200
          \<and> body (fst (serve (editHandler ts) r s)) = concat cs)
       \<and> (\<forall>t cs p. fst (loadPage title s) = Inr p \<and> ts ''edit.html'' = Some t
              \<and> t p = (cs, None) \<longrightarrow>
            status (fst (serve (editHandler ts) r s)) = 200
          \<and> body (fst (serve (editHandler ts) r s)) = concat cs)"
proof -
  note h = editHandler_valid [OF assms]
  have fail: "fst (editHandler ts w r s) = renderTemplate ts w ''edit'' \<lparr>Title = title, Body = []\<rparr>"
    if "isl (fst (loadPage title s))" for w
    using that by (cases "fst (loadPage title s)") (simp_all add: h)
  have found: "fst (editHandler ts w r s) = renderTemplate ts w ''edit'' p"
    if "fst (loadPage title s) = Inr p" for p w
    using that by (simp add: h)
  have r1: "status (fst (serve (editHandler ts) r s)) = 200
          \<and> body (fst (serve (editHandler ts) r s)) = concat cs"
    if "isl (fst (loadPage title s))" "ts ''edit.html'' = Some t"
       "t \<lparr>Title = title, Body = []\<rparr> = (cs, None)" for t cs
    using renderTemplate_fresh_ok [of ts "''edit''" t "\<lparr>Title = title, Body = []\<rparr>" cs] that
    by (simp add: serve_fst fail)
  have r2: "status (fst (serve (editHandler ts) r s)) = 200
          \<and> body (fst (serve (editHandler ts) r s)) = concat cs"
    if "fst (loadPage title s) = Inr p" "ts ''edit.html'' = Some t" "t p = (cs, None)" for t cs p
    using renderTemplate_fresh_ok [of ts "''edit''" t p cs] that
    by (simp add: serve_fst found)
  from fail found r1 r2 show ?thesis by blast
qed

text \<open>
  Editing NoFile, which does not exist, and Foo, which does, with the example templates.
\<close>

theorem editHandler_renders_edit_template_in_both_outcomes_witness:
  "status (fst (serve (editHandler example_templates) (example_request ''GET'' ''/edit/NoFile'') example_os_Foo)) = 200
   \<and> body (fst (serve (editHandler example_templates) (example_request ''GET'' ''/edit/NoFile'') example_os_Foo))
       = ''<h1>Editing NoFile</h1><textarea></textarea>''
   \<and> status (fst (serve (editHandler example_templates) (example_request ''GET'' ''/edit/Foo'') example_os_Foo)) = 200
   \<and> body (fst (serve (editHandler example_templates) (example_request ''GET'' ''/edit/Foo'') example_os_Foo))
       = ''<h1>Editing Foo</h1><textarea>old text</textarea>''"
proof -
  have v1: "''NoFile'' \<noteq> []" "list_all alnum ''NoFile''"
    by (simp_all add: alnum_def)
  have p1: "URL_Path (example_request ''GET'' ''/edit/NoFile'') = ''/edit/'' @ ''NoFile''"
    by (simp add: example_request_def)
  have v2: "''Foo'' \<noteq> []" "list_all alnum ''Foo''"
    by (simp_all add: alnum_def)
  have p2: "URL_Path (example_request ''GET'' ''/edit/Foo'') = ''/edit/'' @ ''Foo''"
    by (simp add: example_request_def)
  have missing: "isl (fst (loadPage ''NoFile'' example_os_Foo))"
    by (rule loadPage_missing) (simp add: example_os_Foo_def example_os_def)
  have present: "fst (loadPage ''Foo'' example_os_Foo) = Inr \<lparr>Title = ''Foo'', Body = ''old text''\<rparr>"
    by (simp add: loadPage_def os_ReadFile_def example_os_Foo_def example_os_def Let_def)
  have tm: "example_templates ''edit.html'' = Some example_edit_template"
    by (simp add: example_templates_def)
  have e1: "example_edit_template \<lparr>Title = ''NoFile'', Body = []\<rparr> = ([''<h1>Editing '', ''NoFile'', ''</h1><textarea>'', [], ''</textarea>''], None)"
    by (simp add: example_edit_template_def)
  have e2: "example_edit_template \<lparr>Title = ''Foo'', Body = ''old text''\<rparr> = ([''<h1>Editing '', ''Foo'', ''</h1><textarea>'', ''old text'', ''</textarea>''], None)"
    by (simp add: example_edit_template_def)
  note c1 = editHandler_renders_edit_template_in_both_outcomes [OF v1 p1, of example_os_Foo example_templates new_ResponseWriter]
  note c2 = editHandler_renders_edit_template_in_both_outcomes [OF v2 p2, of example_os_Foo example_templates new_ResponseWriter]
  have a: "status (fst (serve (editHandler example_templates) (example_request ''GET'' ''/edit/NoFile'') example_os_Foo)) = 200
   \<and> body (fst (serve (editHandler example_templates) (example_request ''GET'' ''/edit/NoFile'') example_os_Foo))
       = concat [''<h1>Editing '', ''NoFile'', ''</h1><textarea>'', [], ''</textarea>'']"
    using c1 missing tm e1 by blast
  have b: "status (fst (serve (editHandler example_templates) (example_request ''GET'' ''/edit/Foo'') example_os_Foo)) = 200
   \<and> body (fst (serve (editHandler example_templates) (example_request ''GET'' ''/edit/Foo'') example_os_Foo))
       = concat [''<h1>Editing '', ''Foo'', ''</h1><textarea>'', ''old text'', ''</textarea>'']"
    using c2 present tm e2 by blast
  show ?thesis using a b by simp
qed


section \<open>Saving without a body field\<close>

lemma FormValue_absent:
  assumes "key \<notin> fst ` set (URL_Query r)" and "key \<notin> fst ` set (UrlencodedBody r)"
    and "key \<notin> fst ` set (MultipartBody r)"
  shows "FormValue r key = []"
proof -
  have "key \<notin> fst ` set (ParseForm r)"
    using assms by (auto simp: ParseForm_def)
  then have "map_of (ParseForm r) key = None"
    by (simp add: map_of_eq_None_iff)
  then show ?thesis by (simp add: FormValue_def)
qed

text \<open>
  Claim C10. For a request to \<^verbatim>\<open>/save/<title>\<close> with a title of letters and digits
  whose form data has no field \<^verbatim>\<open>body\<close>, in none of its three places: FormValue gives the
  empty string, and when the environment does not refuse the write of zero bytes, the file
  \<^verbatim>\<open><title>.txt\<close> is left with no content and the response is 302 with Location
  \<^verbatim>\<open>/view/<title>\<close>.
\<close>

theorem saveHandler_without_body_field_writes_empty_file:
  assumes "title \<noteq> []" and "list_all alnum title"
    and "URL_Path r = ''/save/'' @ title"
    and "''body'' \<notin> fst ` set (URL_Query r)"
    and "''body'' \<notin> fst ` set (UrlencodedBody r)"
    and "''body'' \<notin> fst ` set (MultipartBody r)"
    and "write_fault s (title @ ''.txt'') [] = None"
  shows "FormValue r ''body'' = []
       \<and> map_option content (files (snd (serve saveHandler r s)) (title @ ''.txt'')) = Some []
       \<and> status (fst (serve saveHandler r s)) = 302
       \<and> sent_header (fst (serve saveHandler r s)) ''Location'' = Some (''/view/'' @ title)"
proof -
  have fv: "FormValue r ''body'' = []"
    using assms(4-6) by (rule FormValue_absent)
  have sv: "save \<lparr>Title = title, Body = []\<rparr> s
      = (None, store_file (title @ ''.txt'') [] perm_0600
                (s\<lparr>io_log := io_log s @ [EvWriteFile (title @ ''.txt'') [] perm_0600]\<rparr>))"
    using save_no_fault [of s "\<lparr>Title = title, Body = []\<rparr>"] assms(7) by simp
  note h = saveHandler_valid [OF assms(1-3), unfolded fv]
  have resp: "fst (serve saveHandler r s) = http_Redirect new_ResponseWriter r (''/view/'' @ title) 302"
    by (simp add: serve_fst h sv finishRequest_wrote http_Redirect_fresh(2) new_ResponseWriter_simps)
  have st: "files (snd (serve saveHandler r s)) (title @ ''.txt'')
      = Some \<lparr>content = [], mode = (case files s (title @ ''.txt'') of
                None \<Rightarrow> perm_0600 AND NOT (umask s) | Some f \<Rightarrow> mode f)\<rparr>"
    by (simp add: serve_snd h sv store_file_def split: option.splits)
  show ?thesis
    by (simp add: fv resp st http_Redirect_fresh new_ResponseWriter_simps)
qed

text \<open>
  Posting no form data to \<^verbatim>\<open>/save/Foo\<close> where Foo.txt holds \<^verbatim>\<open>old text\<close>: the file
  is emptied.
\<close>

theorem saveHandler_without_body_field_writes_empty_file_witness:
  "FormValue (example_request_no_form ''POST'' ''/save/Foo'') ''body'' = []
   \<and> map_option content (files (snd (serve saveHandler (example_request_no_form ''POST'' ''/save/Foo'') example_os_Foo)) ''Foo.txt'')
       = Some []
   \<and> status (fst (serve saveHandler (example_request_no_form ''POST'' ''/save/Foo'') example_os_Foo)) = 302
   \<and> sent_header (fst (serve saveHandler (example_request_no_form ''POST'' ''/save/Foo'') example_os_Foo)) ''Location''
       = Some ''/view/Foo''"
proof -
  have v: "''Foo'' \<noteq> []" "list_all alnum ''Foo''"
    by (simp_all add: alnum_def)
  have pth: "URL_Path (example_request_no_form ''POST'' ''/save/Foo'') = ''/save/'' @ ''Foo''"
    by (simp add: example_request_no_form_def)
  have q: "''body'' \<notin> fst ` set (URL_Query (example_request_no_form ''POST'' ''/save/Foo''))"
    "''body'' \<notin> fst ` set (UrlencodedBody (example_request_no_form ''POST'' ''/save/Foo''))"
    "''body'' \<notin> fst ` set (MultipartBody (example_request_no_form ''POST'' ''/save/Foo''))"
    by (simp_all add: example_request_no_form_def)
  have wf: "write_fault example_os_Foo (''Foo'' @ ''.txt'') [] = None"
    by (simp add: example_os_Foo_def example_os_def)
  show ?thesis
    using saveHandler_without_body_field_writes_empty_file [OF v pth q wf]
    by simp
qed

section \<open>The request method\<close>

text \<open>
  No handler reads \<^verbatim>\<open>r.Method\<close>. The method reaches the result through two library
  calls only: FormValue, which reads a urlencoded body for POST, PUT and PATCH, and Redirect,
  which writes Content-Type and a body for GET.
\<close>

lemma getTitle_Method: "getTitle w (r\<lparr>Method := m\<rparr>) = getTitle w r"
  by (simp add: getTitle_def http_NotFound_def split: option.splits)

lemma FormValue_Method:
  assumes "key \<notin> fst ` set (UrlencodedBody r)"
  shows "FormValue (r\<lparr>Method := m\<rparr>) key = FormValue r key"
proof -
  have "map_of (UrlencodedBody r) key = None"
    using assms by (simp add: map_of_eq_None_iff)
  then have "map_of (ParseForm (r\<lparr>Method := m\<rparr>)) key = map_of (ParseForm r) key"
    by (simp add: ParseForm_def map_add_def)
  then show ?thesis by (simp add: FormValue_def)
qed

lemma http_Redirect_Method:
  assumes "\<not> wroteHeader w"
  shows "status (http_Redirect w (r\<lparr>Method := m\<rparr>) url c) = status (http_Redirect w r url c)"
    and "sent_header (http_Redirect w (r\<lparr>Method := m\<rparr>) url c) ''Location''
         = sent_header (http_Redirect w r url c) ''Location''"
  using assms by (simp_all add: http_Redirect_fresh)

lemma editHandler_Method: "editHandler ts w (r\<lparr>Method := m\<rparr>) s = editHandler ts w r s"
  by (simp add: editHandler_def getTitle_Method)

lemma viewHandler_Method:
  assumes "\<not> wroteHeader w"
  shows "snd (viewHandler ts w (r\<lparr>Method := m\<rparr>) s) = snd (viewHandler ts w r s)"
    and "status (fst (viewHandler ts w (r\<lparr>Method := m\<rparr>) s)) = status (fst (viewHandler ts w r s))"
    and "sent_header (fst (viewHandler ts w (r\<lparr>Method := m\<rparr>) s)) ''Location''
         = sent_header (fst (viewHandler ts w r s)) ''Location''"
    and "wroteHeader (fst (viewHandler ts w (r\<lparr>Method := m\<rparr>) s))
         = wroteHeader (fst (viewHandler ts w r s))"
    and "\<not> isl (fst (loadPage (projr (snd (getTitle w r))) s)) \<Longrightarrow>
         viewHandler ts w (r\<lparr>Method := m\<rparr>) s = viewHandler ts w r s"
proof -
  have all: "snd (viewHandler ts w (r\<lparr>Method := m\<rparr>) s) = snd (viewHandler ts w r s)
    \<and> status (fst (viewHandler ts w (r\<lparr>Method := m\<rparr>) s)) = status (fst (viewHandler ts w r s))
    \<and> sent_header (fst (viewHandler ts w (r\<lparr>Method := m\<rparr>) s)) ''Location''
         = sent_header (fst (viewHandler ts w r s)) ''Location''
    \<and> wroteHeader (fst (viewHandler ts w (r\<lparr>Method := m\<rparr>) s))
         = wroteHeader (fst (viewHandler ts w r s))
    \<and> (\<not> isl (fst (loadPage (projr (snd (getTitle w r))) s)) \<longrightarrow>
         viewHandler ts w (r\<lparr>Method := m\<rparr>) s = viewHandler ts w r s)"
  proof (cases "validPath_FindStringSubmatch (URL_Path r)")
    case None
    then show ?thesis
      by (simp add: viewHandler_def getTitle_def http_NotFound_def)
  next
    case (Some mm)
    have m': "validPath_FindStringSubmatch (URL_Path (r\<lparr>Method := m\<rparr>)) = Some mm"
      using Some by simp
    have g: "snd (getTitle w r) = Inr (mm ! 2)"
      by (simp add: getTitle_def Some)
    show ?thesis
      using assms
      by (cases "fst (loadPage (mm ! 2) s)")
        (simp_all add: viewHandler_match [OF Some] viewHandler_match [OF m'] g http_Redirect_fresh)
  qed
  from all show "snd (viewHandler ts w (r\<lparr>Method := m\<rparr>) s) = snd (viewHandler ts w r s)"
    and "status (fst (viewHandler ts w (r\<lparr>Method := m\<rparr>) s)) = status (fst (viewHandler ts w r s))"
    and "sent_header (fst (viewHandler ts w (r\<lparr>Method := m\<rparr>) s)) ''Location''
         = sent_header (fst (viewHandler ts w r s)) ''Location''"
    and "wroteHeader (fst (viewHandler ts w (r\<lparr>Method := m\<rparr>) s))
         = wroteHeader (fst (viewHandler ts w r s))"
    and "\<not> isl (fst (loadPage (projr (snd (getTitle w r))) s)) \<Longrightarrow>
         viewHandler ts w (r\<lparr>Method := m\<rparr>) s = viewHandler ts w r s"
    by blast+
qed

lemma serve_editHandler_Method:
  "serve (editHandler ts) (r\<lparr>Method := m\<rparr>) s = serve (editHandler ts) r s"
  by (simp add: serve_def editHandler_Method)

lemma serve_viewHandler_Method:
  shows "snd (serve (viewHandler ts) (r\<lparr>Method := m\<rparr>) s) = snd (serve (viewHandler ts) r s)"
    and "status (fst (serve (viewHandler ts) (r\<lparr>Method := m\<rparr>) s))
         = status (fst (serve (viewHandler ts) r s))"
    and "sent_header (fst (serve (viewHandler ts) (r\<lparr>Method := m\<rparr>) s)) ''Location''
         = sent_header (fst (serve (viewHandler ts) r s)) ''Location''"
proof -
  note v = viewHandler_Method [where w = new_ResponseWriter and ts = ts and r = r and m = m and s = s,
      OF new_ResponseWriter_simps(1)]
  show "snd (serve (viewHandler ts) (r\<lparr>Method := m\<rparr>) s) = snd (serve (viewHandler ts) r s)"
    by (simp add: serve_snd v(1))
  have hd: "header (fst (viewHandler ts new_ResponseWriter r' s)) ''Location'' = None"
    if "\<not> wroteHeader (fst (viewHandler ts new_ResponseWriter r' s))" for r'
  proof (cases "validPath_FindStringSubmatch (URL_Path r')")
    case None
    then show ?thesis
      using that
      by (simp add: viewHandler_def getTitle_def http_NotFound_def http_Error_fresh(3)
          new_ResponseWriter_simps)
  next
    case (Some mm)
    show ?thesis
    proof (cases "fst (loadPage (mm ! 2) s)")
      case (Inl e)
      then show ?thesis
        using that
        by (simp add: viewHandler_match [OF Some] http_Redirect_fresh(2) new_ResponseWriter_simps)
    next
      case (Inr p)
      have "header (renderTemplate ts new_ResponseWriter ''view'' p) ''Location'' = None"
        if "\<not> wroteHeader (renderTemplate ts new_ResponseWriter ''view'' p)"
        using that
        by (auto simp: renderTemplate_def ExecuteTemplate_def http_Error_wroteHeader
            new_ResponseWriter_simps fold_Write_header
            split: option.splits prod.splits)
      then show ?thesis
        using that by (simp add: viewHandler_match [OF Some] Inr)
    qed
  qed
  show "status (fst (serve (viewHandler ts) (r\<lparr>Method := m\<rparr>) s))
         = status (fst (serve (viewHandler ts) r s))"
    using v(2,4) by (simp add: serve_fst finishRequest_def WriteHeader_def)
  show "sent_header (fst (serve (viewHandler ts) (r\<lparr>Method := m\<rparr>) s)) ''Location''
         = sent_header (fst (serve (viewHandler ts) r s)) ''Location''"
    using v(3,4) hd [of r] hd [of "r\<lparr>Method := m\<rparr>"]
    by (simp add: serve_fst finishRequest_def WriteHeader_def)
qed

lemma serve_viewHandler_Method_loaded:
  assumes "title \<noteq> []" and "list_all alnum title"
    and "URL_Path r = ''/view/'' @ title"
    and "\<not> isl (fst (loadPage title s))"
  shows "serve (viewHandler ts) (r\<lparr>Method := m\<rparr>) s = serve (viewHandler ts) r s"
proof -
  have p': "URL_Path (r\<lparr>Method := m\<rparr>) = ''/view/'' @ title"
    using assms(3) by simp
  obtain p where p: "fst (loadPage title s) = Inr p"
    using assms(4) by (cases "fst (loadPage title s)") simp_all
  show ?thesis
    by (simp add: serve_def viewHandler_valid [OF assms(1,2) p'] viewHandler_valid [OF assms(1-3)] p)
qed

text \<open>
  Claim C9, as the code has it. For a request to \<^verbatim>\<open>/save/<title>\<close> and any method
  \<open>m\<close>, the handler writes \<^verbatim>\<open><title>.txt\<close> with the value FormValue gives for
  \<^verbatim>\<open>body\<close> under that method, and answers 302 with Location \<^verbatim>\<open>/view/<title>\<close> when the
  write succeeds; when the field is not in a urlencoded body, changing the method changes
  neither the files, nor the status, nor the Location. The served response of the edit
  handler is the same for every method. For the view handler the file-system effect, the
  status and the Location are the same for every method, and the whole response when the
  page loads.
\<close>

theorem handlers_do_not_inspect_method:
  assumes "title \<noteq> []" and "list_all alnum title"
    and "URL_Path r = ''/save/'' @ title"
    and "URL_Path r' = ''/view/'' @ title"
  shows "io_log (snd (serve saveHandler (r\<lparr>Method := m\<rparr>) s))
           = io_log s @ [EvWriteFile (title @ ''.txt'') (FormValue (r\<lparr>Method := m\<rparr>) ''body'') perm_0600]
       \<and> (fst (save \<lparr>Title = title, Body = FormValue (r\<lparr>Method := m\<rparr>) ''body''\<rparr> s) = None \<longrightarrow>
            status (fst (serve saveHandler (r\<lparr>Method := m\<rparr>) s)) = 302
          \<and> sent_header (fst (serve saveHandler (r\<lparr>Method := m\<rparr>) s)) ''Location''
              = Some (''/view/'' @ title))
       \<and> (''body'' \<notin> fst ` set (UrlencodedBody r) \<longrightarrow>
            snd (serve saveHandler (r\<lparr>Method := m\<rparr>) s) = snd (serve saveHandler r s)
          \<and> status (fst (serve saveHandler (r\<lparr>Method := m\<rparr>) s))
              = status (fst (serve saveHandler r s))
          \<and> sent_header (fst (serve saveHandler (r\<lparr>Method := m\<rparr>) s)) ''Location''
              = sent_header (fst (serve saveHandler r s)) ''Location'')
       \<and> serve (editHandler ts) (q\<lparr>Method := m\<rparr>) s = serve (editHandler ts) q s
       \<and> snd (serve (viewHandler ts) (q\<lparr>Method := m\<rparr>) s) = snd (serve (viewHandler ts) q s)
       \<and> status (fst (serve (viewHandler ts) (q\<lparr>Method := m\<rparr>) s))
           = status (fst (serve (viewHandler ts) q s))
       \<and> sent_header (fst (serve (viewHandler ts) (q\<lparr>Method := m\<rparr>) s)) ''Location''
           = sent_header (fst (serve (viewHandler ts) q s)) ''Location''
       \<and> (\<not> isl (fst (loadPage title s)) \<longrightarrow>
            serve (viewHandler ts) (r'\<lparr>Method := m\<rparr>) s = serve (viewHandler ts) r' s)"
proof -
  let ?rm = "r\<lparr>Method := m\<rparr>"
  have pm: "URL_Path ?rm = ''/save/'' @ title"
    using assms(3) by simp
  note sm = saveHandler_served [OF assms(1,2) pm, where s = s]
  note sr = saveHandler_served [OF assms(1-3), where s = s]
  have a: "io_log (snd (serve saveHandler ?rm s))
      = io_log s @ [EvWriteFile (title @ ''.txt'') (FormValue ?rm ''body'') perm_0600]"
    using save_io_log [of "\<lparr>Title = title, Body = FormValue ?rm ''body''\<rparr>" s]
    by (simp add: sm(2))
  have b: "status (fst (serve saveHandler ?rm s)) = 302
          \<and> sent_header (fst (serve saveHandler ?rm s)) ''Location'' = Some (''/view/'' @ title)"
    if "fst (save \<lparr>Title = title, Body = FormValue ?rm ''body''\<rparr> s) = None"
    by (simp add: sm(1) that http_Redirect_fresh new_ResponseWriter_simps)
  have c: "snd (serve saveHandler ?rm s) = snd (serve saveHandler r s)
          \<and> status (fst (serve saveHandler ?rm s)) = status (fst (serve saveHandler r s))
          \<and> sent_header (fst (serve saveHandler ?rm s)) ''Location''
              = sent_header (fst (serve saveHandler r s)) ''Location''"
    if "''body'' \<notin> fst ` set (UrlencodedBody r)"
  proof -
    have fv: "FormValue ?rm ''body'' = FormValue r ''body''"
      using that by (rule FormValue_Method)
    show ?thesis
      by (simp add: sm sr fv http_Redirect_fresh http_Error_fresh new_ResponseWriter_simps
          split: option.splits)
  qed
  note d = serve_editHandler_Method [where ts = ts and r = q and m = m and s = s]
  note e = serve_viewHandler_Method [where ts = ts and r = q and m = m and s = s]
  have f: "serve (viewHandler ts) (r'\<lparr>Method := m\<rparr>) s = serve (viewHandler ts) r' s"
    if "\<not> isl (fst (loadPage title s))"
    using serve_viewHandler_Method_loaded [OF assms(1,2,4) that] .
  from a b c d e f show ?thesis by blast
qed

text \<open>
  GET instead of POST, with \<^verbatim>\<open>body=hello\<close> in the query, where Foo.txt exists: the save is
  done and answered alike, and the view of Foo is the same response.
\<close>

theorem handlers_do_not_inspect_method_witness:
  "status (fst (serve saveHandler ((example_request_query ''POST'' ''/save/Foo'')\<lparr>Method := ''GET''\<rparr>) example_os_Foo)) = 302
   \<and> sent_header (fst (serve saveHandler ((example_request_query ''POST'' ''/save/Foo'')\<lparr>Method := ''GET''\<rparr>) example_os_Foo)) ''Location''
       = Some ''/view/Foo''
   \<and> snd (serve saveHandler ((example_request_query ''POST'' ''/save/Foo'')\<lparr>Method := ''GET''\<rparr>) example_os_Foo)
       = snd (serve saveHandler (example_request_query ''POST'' ''/save/Foo'') example_os_Foo)
   \<and> serve (viewHandler example_templates) ((example_request_query ''POST'' ''/view/Foo'')\<lparr>Method := ''GET''\<rparr>) example_os_Foo
       = serve (viewHandler example_templates) (example_request_query ''POST'' ''/view/Foo'') example_os_Foo"
proof -
  have v: "''Foo'' \<noteq> []" "list_all alnum ''Foo''"
    by (simp_all add: alnum_def)
  have p1: "URL_Path (example_request_query ''POST'' ''/save/Foo'') = ''/save/'' @ ''Foo''"
    by (simp add: example_request_query_def)
  have p2: "URL_Path (example_request_query ''POST'' ''/view/Foo'') = ''/view/'' @ ''Foo''"
    by (simp add: example_request_query_def)
  have fv: "FormValue ((example_request_query ''POST'' ''/save/Foo'')\<lparr>Method := ''GET''\<rparr>) ''body'' = ''hello''"
    by (simp add: FormValue_def ParseForm_def example_request_query_def)
  have sv: "fst (save \<lparr>Title = ''Foo'', Body = ''hello''\<rparr> example_os_Foo) = None"
    by (simp add: save_def os_WriteFile_def example_os_Foo_def example_os_def Let_def)
  have nb: "''body'' \<notin> fst ` set (UrlencodedBody (example_request_query ''POST'' ''/save/Foo''))"
    by (simp add: example_request_query_def)
  have ld: "\<not> isl (fst (loadPage ''Foo'' example_os_Foo))"
    by (simp add: loadPage_def os_ReadFile_def example_os_Foo_def example_os_def Let_def)
  note t = handlers_do_not_inspect_method [OF v p1 p2, where m = "''GET''" and s = example_os_Foo
      and ts = example_templates and q = "example_request_query ''POST'' ''/view/Foo''", unfolded fv]
  from t sv nb ld show ?thesis
    by simp
qed

text \<open>
  Claim C9 as stated fails. With \<^verbatim>\<open>body=hello\<close> in a urlencoded request body, a POST to
  \<^verbatim>\<open>/save/Foo\<close> writes \<^verbatim>\<open>hello\<close> and a GET writes an empty file. And the view of a page
  that does not exist answers a GET with a body, the link to the edit page, and a POST with
  none.
\<close>

theorem method_changes_saved_bytes_and_redirect_body:
  "files (snd (serve saveHandler (example_request ''GET'' ''/save/Foo'') example_os)) ''Foo.txt''
     = Some \<lparr>content = [], mode = perm_0600\<rparr>
   \<and> files (snd (serve saveHandler (example_request ''POST'' ''/save/Foo'') example_os)) ''Foo.txt''
     = Some \<lparr>content = ''hello'', mode = perm_0600\<rparr>
   \<and> body (fst (serve (viewHandler example_templates) (example_request ''GET'' ''/view/Bar'') example_os))
     = ''<a href='' @ [CHR 0x22] @ ''/edit/Bar'' @ [CHR 0x22] @ ''>Found</a>.'' @ [CHR 0x0A, CHR 0x0A]
   \<and> body (fst (serve (viewHandler example_templates) (example_request ''POST'' ''/view/Bar'') example_os))
     = []"
proof -
  have m1: "validPath_FindStringSubmatch ''/save/Foo'' = Some [''/save/Foo'', ''save'', ''Foo'']"
    by (simp add: validPath_FindStringSubmatch_def match_verb_def alnum_def)
  have m2: "validPath_FindStringSubmatch ''/view/Bar'' = Some [''/view/Bar'', ''view'', ''Bar'']"
    by (simp add: validPath_FindStringSubmatch_def match_verb_def alnum_def)
  have a: "files (snd (serve saveHandler (example_request ''GET'' ''/save/Foo'') example_os)) ''Foo.txt''
     = Some \<lparr>content = [], mode = perm_0600\<rparr>"
    by (simp add: serve_def saveHandler_def getTitle_def example_request_def m1 FormValue_def
        ParseForm_def save_def os_WriteFile_def store_file_def example_os_def Let_def perm_0600_def)
  have b: "files (snd (serve saveHandler (example_request ''POST'' ''/save/Foo'') example_os)) ''Foo.txt''
     = Some \<lparr>content = ''hello'', mode = perm_0600\<rparr>"
    by (simp add: serve_def saveHandler_def getTitle_def example_request_def m1 FormValue_def
        ParseForm_def save_def os_WriteFile_def store_file_def example_os_def Let_def perm_0600_def)
  have c: "body (fst (serve (viewHandler example_templates) (example_request ''GET'' ''/view/Bar'') example_os))
     = ''<a href='' @ [CHR 0x22] @ ''/edit/Bar'' @ [CHR 0x22] @ ''>Found</a>.'' @ [CHR 0x0A, CHR 0x0A]"
    by (simp add: serve_def viewHandler_def getTitle_def example_request_def m2 loadPage_def
        os_ReadFile_def example_os_def Let_def http_Redirect_def WriteHeader_def Write_def
        finishRequest_def new_ResponseWriter_def StatusText_def)
  have d: "body (fst (serve (viewHandler example_templates) (example_request ''POST'' ''/view/Bar'') example_os))
     = []"
    by (simp add: serve_def viewHandler_def getTitle_def example_request_def m2 loadPage_def
        os_ReadFile_def example_os_def Let_def http_Redirect_def WriteHeader_def Write_def
        finishRequest_def new_ResponseWriter_def StatusText_def)
  from a b c d show ?thesis by blast
qed

section \<open>Rendering failures\<close>

text \<open>
  A template that fails before its first write, or that is not defined, is answered 500
  with the text of the error. A template that fails after a write is not: the status 200
  went out with the first write, the call of WriteHeader in \<^verbatim>\<open>http.Error\<close> is superfluous,
  and the text of the error follows the part of the page already written.
\<close>

lemma renderTemplate_error_before_output:
  assumes "ts (tmpl @ ''.html'') = Some t" and "t p = ([], Some e)"
  shows "status (renderTemplate ts new_ResponseWriter tmpl p) = 500"
    and "body (renderTemplate ts new_ResponseWriter tmpl p) = Error_text e @ [CHR 0x0A]"
  using assms
  by (simp_all add: renderTemplate_error [where cs = "[]"] http_Error_fresh new_ResponseWriter_simps)

lemma renderTemplate_error_after_output:
  assumes "ts (tmpl @ ''.html'') = Some t" and "t p = (cs, Some e)" and "cs \<noteq> []"
  shows "status (renderTemplate ts new_ResponseWriter tmpl p) = 200"
    and "body (renderTemplate ts new_ResponseWriter tmpl p) = concat cs @ Error_text e @ [CHR 0x0A]"
  using assms
  by (simp_all add: renderTemplate_error [where cs = cs] http_Error_late fold_Write_wroteHeader
      fold_Write_status fold_Write_body new_ResponseWriter_simps)

lemma renderTemplate_undefined:
  assumes "ts (tmpl @ ''.html'') = None"
  shows "status (renderTemplate ts new_ResponseWriter tmpl p) = 500"
  using assms
  by (simp add: renderTemplate_def ExecuteTemplate_def http_Error_fresh new_ResponseWriter_simps)

text \<open>
  Claim C8 at the view template that fails after output, for the page Foo: the response has
  status 200, not 500.
\<close>

theorem render_failure_after_output_status_200:
  "status (fst (serve (viewHandler failing_templates) (example_request ''GET'' ''/view/Foo'') example_os_Foo))
     = 200"
proof -
  have m: "validPath_FindStringSubmatch ''/view/Foo'' = Some [''/view/Foo'', ''view'', ''Foo'']"
    by (simp add: validPath_FindStringSubmatch_def match_verb_def alnum_def)
  show ?thesis
    by (simp add: serve_def viewHandler_def getTitle_def example_request_def m loadPage_def
        os_ReadFile_def example_os_Foo_def example_os_def Let_def renderTemplate_def
        ExecuteTemplate_def failing_templates_def failing_view_template_def http_Error_def
        WriteHeader_def Write_def finishRequest_def new_ResponseWriter_def)
qed

text \<open>
  Claim C6 at the same input: the response carries two things, the part of the page written
  before the failure and then the text of the error.
\<close>

theorem render_failure_after_output_two_writes:
  "body (fst (serve (viewHandler failing_templates) (example_request ''GET'' ''/view/Foo'') example_os_Foo))
     = ''<h1>Foo</h1><div>'' @ Error_text template_error @ [CHR 0x0A]"
proof -
  have m: "validPath_FindStringSubmatch ''/view/Foo'' = Some [''/view/Foo'', ''view'', ''Foo'']"
    by (simp add: validPath_FindStringSubmatch_def match_verb_def alnum_def)
  show ?thesis
    by (simp add: serve_def viewHandler_def getTitle_def example_request_def m loadPage_def
        os_ReadFile_def example_os_Foo_def example_os_def Let_def renderTemplate_def
        ExecuteTemplate_def failing_templates_def failing_view_template_def http_Error_def
        WriteHeader_def Write_def finishRequest_def new_ResponseWriter_def)
qed


end
